theory Spec2Isabelle
  imports Complex_Main
begin

section \<open>JavaScript numbers\<close>

text \<open>
  A JavaScript number is an IEEE 754 binary64 value: a finite double, an infinity or NaN.
  A finite double is modelled by the real it denotes; zero has no sign in the model, and
  no branch of the code below depends on the sign of a zero.
\<close>

datatype number = Finite real | PosInfinity | NegInfinity | NaN

text \<open>Rounding a real to the nearest integer, a tie going to the even one.\<close>

definition round_even :: "real \<Rightarrow> int" where
  "round_even y =
     (let n = \<lfloor>y\<rfloor>; d = y - of_int n
      in if d < 1 / 2 then n else if 1 / 2 < d then n + 1 else if even n then n else n + 1)"

text \<open>
  The doubles around \<open>x\<close> are the multiples of \<open>2 powi ulp_exponent x\<close>: 53 significant
  bits in the binade of \<open>x\<close>, and the spacing of the subnormal numbers below it.
\<close>

definition ulp_exponent :: "real \<Rightarrow> int" where
  "ulp_exponent x = max \<lfloor>log 2 \<bar>x\<bar>\<rfloor> (- 1022) - 52"

text \<open>
  The rounding every arithmetic operation and every numeric literal ends with: to the
  nearest double, a tie going to the even significand, and to an infinity where the
  rounded value leaves the range of the finite doubles.
\<close>

definition round64 :: "real \<Rightarrow> number" where
  "round64 x =
     (if x = 0 then Finite 0
      else (let u = 2 powi ulp_exponent x;
                y = of_int (round_even (x / u)) * u
            in if 2 ^ 1024 \<le> \<bar>y\<bar> then (if 0 < x then PosInfinity else NegInfinity)
               else Finite y))"

fun num_neg :: "number \<Rightarrow> number" where
  "num_neg (Finite x) = Finite (- x)"
| "num_neg PosInfinity = NegInfinity"
| "num_neg NegInfinity = PosInfinity"
| "num_neg NaN = NaN"

text \<open>\<^verbatim>\<open>a + b\<close>\<close>

fun num_add :: "number \<Rightarrow> number \<Rightarrow> number" where
  "num_add (Finite x) (Finite y) = round64 (x + y)"
| "num_add (Finite x) PosInfinity = PosInfinity"
| "num_add (Finite x) NegInfinity = NegInfinity"
| "num_add PosInfinity (Finite y) = PosInfinity"
| "num_add PosInfinity PosInfinity = PosInfinity"
| "num_add NegInfinity (Finite y) = NegInfinity"
| "num_add NegInfinity NegInfinity = NegInfinity"
| "num_add PosInfinity NegInfinity = NaN"
| "num_add NegInfinity PosInfinity = NaN"
| "num_add NaN b = NaN"
| "num_add a NaN = NaN"

text \<open>\<^verbatim>\<open>a - b\<close>\<close>

fun num_sub :: "number \<Rightarrow> number \<Rightarrow> number" where
  "num_sub (Finite x) (Finite y) = round64 (x - y)"
| "num_sub (Finite x) PosInfinity = NegInfinity"
| "num_sub (Finite x) NegInfinity = PosInfinity"
| "num_sub PosInfinity (Finite y) = PosInfinity"
| "num_sub PosInfinity NegInfinity = PosInfinity"
| "num_sub NegInfinity (Finite y) = NegInfinity"
| "num_sub NegInfinity PosInfinity = NegInfinity"
| "num_sub PosInfinity PosInfinity = NaN"
| "num_sub NegInfinity NegInfinity = NaN"
| "num_sub NaN b = NaN"
| "num_sub a NaN = NaN"

text \<open>\<^verbatim>\<open>a * b\<close>\<close>

fun num_mul :: "number \<Rightarrow> number \<Rightarrow> number" where
  "num_mul (Finite x) (Finite y) = round64 (x * y)"
| "num_mul (Finite x) PosInfinity =
     (if x = 0 then NaN else if 0 < x then PosInfinity else NegInfinity)"
| "num_mul (Finite x) NegInfinity =
     (if x = 0 then NaN else if 0 < x then NegInfinity else PosInfinity)"
| "num_mul PosInfinity (Finite y) =
     (if y = 0 then NaN else if 0 < y then PosInfinity else NegInfinity)"
| "num_mul NegInfinity (Finite y) =
     (if y = 0 then NaN else if 0 < y then NegInfinity else PosInfinity)"
| "num_mul PosInfinity PosInfinity = PosInfinity"
| "num_mul PosInfinity NegInfinity = NegInfinity"
| "num_mul NegInfinity PosInfinity = NegInfinity"
| "num_mul NegInfinity NegInfinity = PosInfinity"
| "num_mul NaN b = NaN"
| "num_mul a NaN = NaN"

text \<open>\<^verbatim>\<open>a / b\<close>; a zero divisor is taken as the positive zero.\<close>

fun num_div :: "number \<Rightarrow> number \<Rightarrow> number" where
  "num_div (Finite x) (Finite y) =
     (if y = 0 then (if x = 0 then NaN else if 0 < x then PosInfinity else NegInfinity)
      else round64 (x / y))"
| "num_div (Finite x) PosInfinity = Finite 0"
| "num_div (Finite x) NegInfinity = Finite 0"
| "num_div PosInfinity (Finite y) = (if 0 \<le> y then PosInfinity else NegInfinity)"
| "num_div NegInfinity (Finite y) = (if 0 \<le> y then NegInfinity else PosInfinity)"
| "num_div PosInfinity PosInfinity = NaN"
| "num_div PosInfinity NegInfinity = NaN"
| "num_div NegInfinity PosInfinity = NaN"
| "num_div NegInfinity NegInfinity = NaN"
| "num_div NaN b = NaN"
| "num_div a NaN = NaN"

text \<open>
  The remainder \<^verbatim>\<open>a % b\<close>: the quotient is truncated towards zero, so the result has
  the sign of \<open>a\<close>; it is exact, with no rounding.
\<close>

definition js_rem :: "real \<Rightarrow> real \<Rightarrow> real" where
  "js_rem a b = a - b * of_int (if 0 \<le> a / b then \<lfloor>a / b\<rfloor> else \<lceil>a / b\<rceil>)"

fun num_rem :: "number \<Rightarrow> number \<Rightarrow> number" where
  "num_rem (Finite x) (Finite y) = (if y = 0 then NaN else Finite (js_rem x y))"
| "num_rem (Finite x) PosInfinity = Finite x"
| "num_rem (Finite x) NegInfinity = Finite x"
| "num_rem PosInfinity b = NaN"
| "num_rem NegInfinity b = NaN"
| "num_rem NaN b = NaN"
| "num_rem (Finite x) NaN = NaN"

text \<open>\<^verbatim>\<open>a < b\<close> and \<^verbatim>\<open>a <= b\<close>; a comparison with NaN is false.\<close>

fun num_lt :: "number \<Rightarrow> number \<Rightarrow> bool" where
  "num_lt (Finite x) (Finite y) = (x < y)"
| "num_lt (Finite x) PosInfinity = True"
| "num_lt (Finite x) NegInfinity = False"
| "num_lt NegInfinity (Finite y) = True"
| "num_lt NegInfinity PosInfinity = True"
| "num_lt NegInfinity NegInfinity = False"
| "num_lt PosInfinity b = False"
| "num_lt NaN b = False"
| "num_lt (Finite x) NaN = False"
| "num_lt NegInfinity NaN = False"

fun num_le :: "number \<Rightarrow> number \<Rightarrow> bool" where
  "num_le (Finite x) (Finite y) = (x \<le> y)"
| "num_le (Finite x) PosInfinity = True"
| "num_le (Finite x) NegInfinity = False"
| "num_le NegInfinity (Finite y) = True"
| "num_le NegInfinity PosInfinity = True"
| "num_le NegInfinity NegInfinity = True"
| "num_le PosInfinity PosInfinity = True"
| "num_le PosInfinity (Finite y) = False"
| "num_le PosInfinity NegInfinity = False"
| "num_le NaN b = False"
| "num_le (Finite x) NaN = False"
| "num_le NegInfinity NaN = False"
| "num_le PosInfinity NaN = False"

text \<open>\<^verbatim>\<open>a > b\<close> and \<^verbatim>\<open>a >= b\<close>\<close>

definition num_gt :: "number \<Rightarrow> number \<Rightarrow> bool" where
  "num_gt a b = num_lt b a"

definition num_ge :: "number \<Rightarrow> number \<Rightarrow> bool" where
  "num_ge a b = num_le b a"

text \<open>\<^verbatim>\<open>Math.round\<close>: the nearest integer, a tie going up; the result is exact.\<close>

fun Math_round :: "number \<Rightarrow> number" where
  "Math_round (Finite x) = Finite (of_int \<lfloor>x + 1 / 2\<rfloor>)"
| "Math_round PosInfinity = PosInfinity"
| "Math_round NegInfinity = NegInfinity"
| "Math_round NaN = NaN"

text \<open>The real a finite number denotes, and the integer an integral one denotes.\<close>

fun real_of :: "number \<Rightarrow> real" where
  "real_of (Finite x) = x"
| "real_of PosInfinity = 0"
| "real_of NegInfinity = 0"
| "real_of NaN = 0"

definition int_of :: "number \<Rightarrow> int" where
  "int_of a = \<lfloor>real_of a\<rfloor>"

text \<open>The double a numeric literal denotes, as a real.\<close>

definition dbl :: "real \<Rightarrow> real" where
  "dbl c = real_of (round64 c)"

text \<open>A number that is not negative: a finite one from 0 on, or the positive infinity.\<close>

fun nonneg :: "number \<Rightarrow> bool" where
  "nonneg (Finite x) = (0 \<le> x)"
| "nonneg PosInfinity = True"
| "nonneg NegInfinity = False"
| "nonneg NaN = False"

section \<open>JavaScript values and errors\<close>

text \<open>
  The interval data reaches the estimator as the result of \<^verbatim>\<open>JSON.parse\<close>, and the
  estimator tests the dynamic type of the fields it reads, so the data is modelled as
  JavaScript values. \<open>JNum r\<close> is the number whose literal has the value \<open>r\<close>: reading
  it gives \<open>round64 r\<close>, the nearest double, or an infinity for a literal such as
  \<^verbatim>\<open>1e999\<close>. An object is the list of its properties, each name once, looked up by name.
\<close>

datatype jsval =
    JUndefined
  | JNull
  | JBool bool
  | JNum real
  | JStr string
  | JArr "jsval list"
  | JObj "(string \<times> jsval) list"

text \<open>
  Every \<^verbatim>\<open>throw\<close> of the source is a value of this type. \<open>TypeError\<close> is what the
  engine raises when a property of \<^verbatim>\<open>null\<close> or \<^verbatim>\<open>undefined\<close> is read;
  \<open>NetworkError\<close> and \<open>SyntaxError\<close> are the rejections of \<^verbatim>\<open>fetch\<close> and of
  \<^verbatim>\<open>response.json()\<close>; the others are the \<^verbatim>\<open>new Error(...)\<close> of the source, named
  after their messages. The out-of-range error carries the rate of its message.
\<close>

datatype error =
    TypeError
  | NetworkError
  | SyntaxError
  | LoadFailed
  | ExpectedArray
  | InsufficientData
  | NoValidIntervals
  | OutOfRange number

text \<open>
  Reading a property \<^verbatim>\<open>v.k\<close>. The estimator reads only \<^verbatim>\<open>phase\<close>, \<^verbatim>\<open>entry\<close> and
  \<^verbatim>\<open>duration\<close>, which no boolean, number, string or array has.
\<close>

fun get_prop :: "jsval \<Rightarrow> string \<Rightarrow> error + jsval" where
  "get_prop JUndefined k = Inl TypeError"
| "get_prop JNull k = Inl TypeError"
| "get_prop (JObj props) k = Inr (case map_of props k of None \<Rightarrow> JUndefined | Some v \<Rightarrow> v)"
| "get_prop (JBool b) k = Inr JUndefined"
| "get_prop (JNum r) k = Inr JUndefined"
| "get_prop (JStr s) k = Inr JUndefined"
| "get_prop (JArr vs) k = Inr JUndefined"

text \<open>\<^verbatim>\<open>typeof v === 'number'\<close>\<close>

fun typeof_number :: "jsval \<Rightarrow> bool" where
  "typeof_number (JNum r) = True"
| "typeof_number JUndefined = False"
| "typeof_number JNull = False"
| "typeof_number (JBool b) = False"
| "typeof_number (JStr s) = False"
| "typeof_number (JArr vs) = False"
| "typeof_number (JObj props) = False"

section \<open>The BPM estimator: \<^verbatim>\<open>calculateStableBPM\<close>\<close>

text \<open>
  The callback of \<^verbatim>\<open>intervals.filter\<close>:
  \<^verbatim>\<open>event.phase === "QRS" && typeof event.entry === 'number' && typeof event.duration === 'number'\<close>,
  with the short circuit of \<^verbatim>\<open>&&\<close>.
\<close>

definition is_qrs_event :: "jsval \<Rightarrow> error + bool" where
  "is_qrs_event event =
     (case get_prop event ''phase'' of
        Inl e \<Rightarrow> Inl e
      | Inr ph \<Rightarrow>
          if ph \<noteq> JStr ''QRS'' then Inr False
          else (case get_prop event ''entry'' of
                  Inl e \<Rightarrow> Inl e
                | Inr en \<Rightarrow>
                    if \<not> typeof_number en then Inr False
                    else (case get_prop event ''duration'' of
                            Inl e \<Rightarrow> Inl e
                          | Inr du \<Rightarrow> Inr (typeof_number du))))"

text \<open>\<^verbatim>\<open>intervals.filter(...)\<close>: the callback runs on the elements in order and its first
  exception ends the call.\<close>

fun filter_events :: "jsval list \<Rightarrow> error + jsval list" where
  "filter_events [] = Inr []"
| "filter_events (event # events) =
     (case is_qrs_event event of
        Inl e \<Rightarrow> Inl e
      | Inr keep \<Rightarrow>
          (case filter_events events of
             Inl e \<Rightarrow> Inl e
           | Inr kept \<Rightarrow> Inr (if keep then event # kept else kept)))"

text \<open>
  \<^verbatim>\<open>qrsEvents[i].entry\<close> as an operand of the subtraction. Every element of \<open>qrsEvents\<close>
  passed the filter, so its \<^verbatim>\<open>entry\<close> is a number (lemma \<open>filter_events_entry\<close> below)
  and the other cases are never reached.
\<close>

fun entry_of :: "jsval \<Rightarrow> number" where
  "entry_of event = (case get_prop event ''entry'' of Inr (JNum r) \<Rightarrow> round64 r | _ \<Rightarrow> NaN)"

text \<open>
  The \<^verbatim>\<open>for\<close> loop over \<open>i\<close>, with its two accumulators. The counter
  \<open>validRRCount\<close> is exact: an array has fewer than \<open>2 ^ 32\<close> elements.
\<close>

function rr_loop :: "jsval list \<Rightarrow> nat \<Rightarrow> number \<Rightarrow> nat \<Rightarrow> number \<times> nat" where
  "rr_loop qrsEvents i totalRR validRRCount =
     (if i < length qrsEvents then
        (let rrInterval = num_sub (entry_of (qrsEvents ! i)) (entry_of (qrsEvents ! (i - 1))) in
           if num_gt rrInterval (round64 0.3) \<and> num_lt rrInterval (round64 2.0)
           then rr_loop qrsEvents (i + 1) (num_add totalRR rrInterval) (validRRCount + 1)
           else rr_loop qrsEvents (i + 1) totalRR validRRCount)
      else (totalRR, validRRCount))"
  by pat_completeness auto
termination
  by (relation "measure (\<lambda>(qrsEvents, i, totalRR, validRRCount). length qrsEvents - i)") auto

declare rr_loop.simps [simp del]

text \<open>
  The rate that passes the last test is an integer between 40 and 180 (lemma
  \<open>in_range_integer\<close> below), which \<open>int_of\<close> reads; NaN, which would pass it too, is
  never reached (lemma \<open>spec_bpm_not_NaN\<close>).
\<close>

definition calculateStableBPM :: "jsval list \<Rightarrow> error + int" where
  "calculateStableBPM intervals =
     (case filter_events intervals of
        Inl e \<Rightarrow> Inl e
      | Inr qrsEvents \<Rightarrow>
          if length qrsEvents < 2 then Inl InsufficientData
          else (case rr_loop qrsEvents 1 (Finite 0) 0 of
                  (totalRR, validRRCount) \<Rightarrow>
                    if validRRCount = 0 then Inl NoValidIntervals
                    else (let avgRR = num_div totalRR (Finite (real validRRCount));
                              bpm = Math_round (num_div (Finite 60) avgRR)
                          in if num_lt bpm (Finite 40) \<or> num_gt bpm (Finite 180)
                             then Inl (OutOfRange bpm)
                             else Inr (int_of bpm))))"

subsection \<open>The estimator as the specification words it, in binary64 arithmetic\<close>

text \<open>
  The definitions of this subsection follow the words of the specification, not the code,
  with every subtraction, sum and quotient rounded as JavaScript rounds it. A property
  can be read off every value but \<^verbatim>\<open>null\<close> and \<^verbatim>\<open>undefined\<close>; a sequence of interval
  records holds neither.
\<close>

fun nullish :: "jsval \<Rightarrow> bool" where
  "nullish JUndefined = True"
| "nullish JNull = True"
| "nullish (JBool b) = False"
| "nullish (JNum r) = False"
| "nullish (JStr s) = False"
| "nullish (JArr vs) = False"
| "nullish (JObj props) = False"

text \<open>The field \<open>k\<close> of a record, \<^verbatim>\<open>undefined\<close> when the record has none.\<close>

definition field :: "jsval \<Rightarrow> string \<Rightarrow> jsval" where
  "field v k = (case get_prop v k of Inl e \<Rightarrow> JUndefined | Inr x \<Rightarrow> x)"

text \<open>A record labelled "QRS".\<close>

definition qrs_labelled :: "jsval \<Rightarrow> bool" where
  "qrs_labelled event \<longleftrightarrow> field event ''phase'' = JStr ''QRS''"

text \<open>Step 1: a QRS event is a record labelled "QRS" whose entry and duration are numeric.\<close>

definition qualifies :: "jsval \<Rightarrow> bool" where
  "qualifies event \<longleftrightarrow>
     qrs_labelled event \<and> typeof_number (field event ''entry'')
     \<and> typeof_number (field event ''duration'')"

text \<open>The entry times of the QRS events, in order.\<close>

definition qrs_entries :: "jsval list \<Rightarrow> number list" where
  "qrs_entries intervals = map entry_of (filter qualifies intervals)"

text \<open>Step 3: the successive differences between consecutive entry times.\<close>

definition rr_intervals :: "number list \<Rightarrow> number list" where
  "rr_intervals ts = map (\<lambda>i. num_sub (ts ! i) (ts ! (i - 1))) [1..<length ts]"

text \<open>Step 4: an RR interval survives when it lies strictly between the doubles 0.3 and
  2.0.\<close>

definition plausible :: "number \<Rightarrow> bool" where
  "plausible rr \<longleftrightarrow> num_gt rr (round64 0.3) \<and> num_lt rr (round64 2.0)"

definition surviving :: "number list \<Rightarrow> number list" where
  "surviving rrs = filter plausible rrs"

text \<open>Step 6: the average, summed from the left, and the rounded rate.\<close>

definition total :: "number list \<Rightarrow> number" where
  "total rs = foldl num_add (Finite 0) rs"

definition average :: "number list \<Rightarrow> number" where
  "average rs = num_div (total rs) (Finite (real (length rs)))"

definition spec_bpm :: "jsval list \<Rightarrow> number" where
  "spec_bpm intervals =
     Math_round (num_div (Finite 60) (average (surviving (rr_intervals (qrs_entries intervals)))))"

text \<open>Step 7: the rate is within [40, 180].\<close>

definition in_range :: "number \<Rightarrow> bool" where
  "in_range bpm \<longleftrightarrow> num_le (Finite 40) bpm \<and> num_le bpm (Finite 180)"

text \<open>The QRS-labelled records of a sequence, each with its entry and duration fields,
  in order.\<close>

definition timing :: "jsval \<Rightarrow> jsval \<times> jsval" where
  "timing event = (field event ''entry'', field event ''duration'')"

definition qrs_records :: "jsval list \<Rightarrow> (jsval \<times> jsval) list" where
  "qrs_records intervals = map timing (filter qrs_labelled intervals)"

text \<open>Interval records as the resource holds them, for the examples.\<close>

definition phase_event :: "string \<Rightarrow> real \<Rightarrow> real \<Rightarrow> jsval" where
  "phase_event ph en du = JObj [(''phase'', JStr ph), (''entry'', JNum en), (''duration'', JNum du)]"

definition qrs_event :: "real \<Rightarrow> real \<Rightarrow> jsval" where
  "qrs_event en du = phase_event ''QRS'' en du"

subsection \<open>The estimator as the specification words it, in exact arithmetic\<close>

text \<open>
  The same steps on the reals the entry times denote, with no rounding: exact
  differences, the open range from 0.3 to 2.0, the exact average, and the quotient
  rounded to the nearest integer, a tie going away from zero.
\<close>

definition exact_entries :: "jsval list \<Rightarrow> real list" where
  "exact_entries intervals = map (\<lambda>event. real_of (entry_of event)) (filter qualifies intervals)"

definition exact_rr_intervals :: "real list \<Rightarrow> real list" where
  "exact_rr_intervals ts = map (\<lambda>i. ts ! i - ts ! (i - 1)) [1..<length ts]"

definition exact_surviving :: "real list \<Rightarrow> real list" where
  "exact_surviving rrs = filter (\<lambda>rr. 0.3 < rr \<and> rr < 2.0) rrs"

definition exact_average :: "real list \<Rightarrow> real" where
  "exact_average rs = sum_list rs / real (length rs)"

definition round_half_away :: "real \<Rightarrow> int" where
  "round_half_away x = (if 0 \<le> x then \<lfloor>x + 1 / 2\<rfloor> else \<lceil>x - 1 / 2\<rceil>)"

definition exact_bpm :: "jsval list \<Rightarrow> int" where
  "exact_bpm intervals =
     round_half_away
       (60 / exact_average (exact_surviving (exact_rr_intervals (exact_entries intervals))))"


section \<open>The synthetic generator: \<^verbatim>\<open>generateRealisticECG\<close>\<close>

text \<open>
  The records pushed to \<^verbatim>\<open>data\<close>; the field \<open>val\<close> is \<^verbatim>\<open>value\<close> in the source. What
  decides a branch of the generator is computed in binary64, as the code computes it: the
  samples per beat and the position in the beat. The numbers the samples hold are
  idealised as reals: the time \<^verbatim>\<open>i / samplingRate\<close> and the arithmetic of a wave on
  the position are exact, \<^verbatim>\<open>Math.PI\<close> is \<open>pi\<close> and \<^verbatim>\<open>Math.sin\<close> is \<open>sin\<close>.
\<close>

record SamplePoint =
  time :: real
  val :: real

text \<open>
  The body of the loop up to the noise: the \<^verbatim>\<open>if\<close> chain that sets \<^verbatim>\<open>value\<close> from
  \<^verbatim>\<open>posInBeat\<close>. Each bound of a window is the double its literal denotes.
\<close>

definition phase_value :: "number \<Rightarrow> real" where
  "phase_value posInBeat =
     (if num_ge posInBeat (round64 0.1) \<and> num_lt posInBeat (round64 0.2) then
        0.25 * sin ((real_of posInBeat - 0.1) * pi * 10)
      else if num_ge posInBeat (round64 0.2) \<and> num_lt posInBeat (round64 0.3) then
        (let value0 = - 0.2 * sin ((real_of posInBeat - 0.2) * pi * 20) in
           if num_ge posInBeat (round64 0.22) \<and> num_lt posInBeat (round64 0.28) then
             1.5 * sin ((real_of posInBeat - 0.22) * pi * 16.67)
           else value0)
      else if num_ge posInBeat (round64 0.4) \<and> num_lt posInBeat (round64 0.6) then
        0.3 * sin ((real_of posInBeat - 0.4) * pi * 5)
      else 0)"

text \<open>
  \<^verbatim>\<open>Math.random\<close> is the one effect of the generator. The numbers it returns during a
  run are a parameter \<open>random\<close>, in call order; the loop calls it once per sample, so
  sample \<open>i\<close> takes \<open>random i\<close>. The noise added to a sample is
  \<^verbatim>\<open>(Math.random() - 0.5) * 0.05\<close>.
\<close>

definition noise_term :: "(nat \<Rightarrow> real) \<Rightarrow> nat \<Rightarrow> real" where
  "noise_term random i = (random i - 0.5) * 0.05"

text \<open>One pass through the body of the loop: the record pushed for index \<open>i\<close>. The index
  is a double: an array has fewer than \<open>2 ^ 32\<close> elements.\<close>

definition ecg_sample :: "real \<Rightarrow> number \<Rightarrow> (nat \<Rightarrow> real) \<Rightarrow> nat \<Rightarrow> SamplePoint" where
  "ecg_sample samplingRate samplesPerBeat random i =
     (let posInBeat = num_div (num_rem (Finite (real i)) samplesPerBeat) samplesPerBeat;
          value0 = phase_value posInBeat;
          value1 = value0 + noise_term random i
      in \<lparr>time = real i / samplingRate, val = value1\<rparr>)"

function ecg_loop ::
  "nat \<Rightarrow> real \<Rightarrow> number \<Rightarrow> (nat \<Rightarrow> real) \<Rightarrow> nat \<Rightarrow> SamplePoint list \<Rightarrow> SamplePoint list" where
  "ecg_loop length' samplingRate samplesPerBeat random i data =
     (if i < length' then
        ecg_loop length' samplingRate samplesPerBeat random (i + 1)
          (data @ [ecg_sample samplingRate samplesPerBeat random i])
      else data)"
  by pat_completeness auto
termination
  by (relation "measure (\<lambda>(length', samplingRate, samplesPerBeat, random, i, data). length' - i)")
    auto

declare ecg_loop.simps [simp del]

text \<open>\<^verbatim>\<open>(60 / heartRate) * samplingRate\<close>, each argument the double nearest to the real
  given.\<close>

definition samples_per_beat :: "real \<Rightarrow> real \<Rightarrow> number" where
  "samples_per_beat samplingRate heartRate =
     num_mul (num_div (Finite 60) (round64 heartRate)) (round64 samplingRate)"

text \<open>
  The sample count is a natural number. The heart rate is optional: left out, it is 72.
  The time of a sample is the code's where the sampling rate is not zero: a division by
  zero gives an infinity or NaN in JavaScript and \<open>0\<close> here.
\<close>

definition generateRealisticECG ::
  "nat \<Rightarrow> real \<Rightarrow> real option \<Rightarrow> (nat \<Rightarrow> real) \<Rightarrow> SamplePoint list" where
  "generateRealisticECG length' samplingRate heartRateArg random =
     (let heartRate = (case heartRateArg of None \<Rightarrow> 72 | Some h \<Rightarrow> h);
          samplesPerBeat = samples_per_beat samplingRate heartRate
      in ecg_loop length' samplingRate samplesPerBeat random 0 [])"

text \<open>The random source whose every draw is one half: its noise term is 0.\<close>

definition mid_random :: "nat \<Rightarrow> real" where
  "mid_random i = 0.5"

subsection \<open>The waveform as the specification words it\<close>

text \<open>The position of sample \<open>i\<close> within its beat, as the code computes it in binary64.\<close>

definition pos_in_beat :: "nat \<Rightarrow> real \<Rightarrow> real \<Rightarrow> number" where
  "pos_in_beat i R H =
     num_div (num_rem (Finite (real i)) (samples_per_beat R H)) (samples_per_beat R H)"

text \<open>The same in exact arithmetic, with the mathematical remainder.\<close>

definition exact_pos_in_beat :: "nat \<Rightarrow> real \<Rightarrow> real \<Rightarrow> real" where
  "exact_pos_in_beat i R H =
     (let samplesPerBeat = (60 / H) * R
      in (real i - samplesPerBeat * of_int \<lfloor>real i / samplesPerBeat\<rfloor>) / samplesPerBeat)"

text \<open>A half-sine of amplitude \<open>A\<close> on the window from \<open>a\<close> to \<open>b\<close>: half a period of the
  sine across the window, 0 at both ends and \<open>A\<close> in the middle.\<close>

definition half_sine :: "real \<Rightarrow> real \<Rightarrow> real \<Rightarrow> real \<Rightarrow> real" where
  "half_sine A a b p = A * sin (pi * (p - a) / (b - a))"

text \<open>A whole period of the sine across the window.\<close>

definition full_sine :: "real \<Rightarrow> real \<Rightarrow> real \<Rightarrow> real \<Rightarrow> real" where
  "full_sine A a b p = A * sin (2 * pi * (p - a) / (b - a))"

text \<open>The piecewise waveform of the specification, on an exact position.\<close>

definition spec_waveform :: "real \<Rightarrow> real" where
  "spec_waveform p =
     (if 0.10 \<le> p \<and> p < 0.20 then half_sine 0.25 0.10 0.20 p
      else if 0.20 \<le> p \<and> p < 0.30 then
        (if 0.22 \<le> p \<and> p < 0.28 then half_sine 1.5 0.22 0.28 p
         else half_sine (- 0.2) 0.20 0.30 p)
      else if 0.40 \<le> p \<and> p < 0.60 then half_sine 0.3 0.40 0.60 p
      else 0)"

text \<open>A position in the window whose bounds are the doubles of the literals \<open>a\<close> and \<open>b\<close>.\<close>

definition in_window :: "number \<Rightarrow> real \<Rightarrow> real \<Rightarrow> bool" where
  "in_window p a b \<longleftrightarrow> num_le (round64 a) p \<and> num_lt p (round64 b)"

text \<open>
  The waveform on the position the code computes, with the two pieces of the QRS window
  as the generator has them: the base is a whole period of the sine across the window,
  and the R wave has the rate 16.67 where a half-sine on a window of width 0.06 has
  1 / 0.06.
\<close>

definition amended_waveform :: "number \<Rightarrow> real" where
  "amended_waveform p =
     (if in_window p 0.10 0.20 then half_sine 0.25 0.10 0.20 (real_of p)
      else if in_window p 0.20 0.30 then
        (if in_window p 0.22 0.28 then 1.5 * sin (16.67 * pi * (real_of p - 0.22))
         else full_sine (- 0.2) 0.20 0.30 (real_of p))
      else if in_window p 0.40 0.60 then half_sine 0.3 0.40 0.60 (real_of p)
      else 0)"

section \<open>The interval-walking generator: \<^verbatim>\<open>generateECGPoint\<close>\<close>

text \<open>
  The worker reads \<^verbatim>\<open>phase\<close>, \<^verbatim>\<open>entry\<close> and \<^verbatim>\<open>duration\<close> of each interval without a
  test of their types: the intervals are records of the data model. The time and the
  fields are the doubles nearest to the reals given. The tests are in binary64; the
  arithmetic of a shape on the progress is idealised as for the other generator.
\<close>

record PhaseInterval =
  phase :: string
  entry :: real
  duration :: real

text \<open>The \<^verbatim>\<open>for ... of\<close> loop returns from inside the first interval that holds the time.\<close>

fun generateECGPoint :: "PhaseInterval list \<Rightarrow> real \<Rightarrow> real" where
  "generateECGPoint [] t = 0"
| "generateECGPoint (interval # intervals) t =
     (if num_ge (round64 t) (round64 (entry interval))
         \<and> num_lt (round64 t) (num_add (round64 (entry interval)) (round64 (duration interval)))
      then
        (let phaseTime = num_sub (round64 t) (round64 (entry interval));
             phaseProgress = num_div phaseTime (round64 (duration interval));
             progress = real_of phaseProgress
         in if phase interval = ''QRS'' then
              (if num_lt phaseProgress (round64 0.15) then
                 - 0.3 * (1 - cos (progress / 0.15 * pi / 2))
               else if num_lt phaseProgress (round64 0.35) then
                 1.8 * sin ((progress - 0.15) / 0.2 * pi)
               else if num_lt phaseProgress (round64 0.6) then
                 - 0.4 * (1 - (progress - 0.35) / 0.25)
               else 0)
            else if phase interval = ''PQ'' then
              0.2 * sin (pi * progress * 2.5)
            else if phase interval = ''ST'' then
              (if num_lt phaseProgress (round64 0.4) then 0.05
               else 0.35 * sin ((progress - 0.4) / 0.6 * pi)
                      * exp (- (progress - 0.4) / 0.6 * 2))
            else 0)
      else generateECGPoint intervals t)"

text \<open>The half-open span of an interval as the code tests it: the end is the rounded sum
  of entry and duration.\<close>

definition in_span :: "real \<Rightarrow> PhaseInterval \<Rightarrow> bool" where
  "in_span t interval \<longleftrightarrow>
     num_le (round64 (entry interval)) (round64 t)
     \<and> num_lt (round64 t) (num_add (round64 (entry interval)) (round64 (duration interval)))"

text \<open>The half-open span in exact arithmetic.\<close>

definition exact_in_span :: "real \<Rightarrow> PhaseInterval \<Rightarrow> bool" where
  "exact_in_span t interval \<longleftrightarrow> entry interval \<le> t \<and> t < entry interval + duration interval"

section \<open>The loader: \<^verbatim>\<open>loadEcgData\<close>\<close>

text \<open>
  What \<^verbatim>\<open>fetch\<close> and \<^verbatim>\<open>response.json()\<close> give: the request is rejected, or there is
  a response with its \<^verbatim>\<open>ok\<close> flag and its body, \<open>None\<close> when the body is not JSON.
\<close>

datatype fetch_result =
    FetchRejected
  | Response bool "jsval option"

text \<open>\<^verbatim>\<open>ECG_CONFIG.SAMPLING_RATE\<close> of \<^verbatim>\<open>animationConfig.js\<close>.\<close>

definition SAMPLING_RATE :: real where
  "SAMPLING_RATE = 360"

text \<open>
  What a call leaves behind: the arguments of its calls of \<^verbatim>\<open>setRealBPM\<close>, in order,
  and the sequence it returns.
\<close>

record load_outcome =
  setRealBPM_calls :: "int list"
  returned :: "SamplePoint list"

text \<open>The \<^verbatim>\<open>try\<close> block: \<open>Inl\<close> is the exception that leaves it.\<close>

definition loadEcgData_try :: "fetch_result \<Rightarrow> (nat \<Rightarrow> real) \<Rightarrow> error + load_outcome" where
  "loadEcgData_try fetched random =
     (case fetched of
        FetchRejected \<Rightarrow> Inl NetworkError
      | Response ok body \<Rightarrow>
          if \<not> ok then Inl LoadFailed
          else (case body of
                  None \<Rightarrow> Inl SyntaxError
                | Some intervalData \<Rightarrow>
                    (case intervalData of
                       JArr elements \<Rightarrow>
                         (case calculateStableBPM elements of
                            Inl e \<Rightarrow> Inl e
                          | Inr stableBPM \<Rightarrow>
                              Inr \<lparr>setRealBPM_calls = [stableBPM],
                                   returned = generateRealisticECG 1000 SAMPLING_RATE
                                     (Some (of_int stableBPM)) random\<rparr>)
                     | _ \<Rightarrow> Inl ExpectedArray)))"

text \<open>
  The whole function: the \<^verbatim>\<open>catch\<close> block takes every exception of the \<^verbatim>\<open>try\<close>
  block. \<open>Inl\<close> would be an exception that leaves the function.
\<close>

definition loadEcgData :: "fetch_result \<Rightarrow> (nat \<Rightarrow> real) \<Rightarrow> error + load_outcome" where
  "loadEcgData fetched random =
     (case loadEcgData_try fetched random of
        Inr outcome \<Rightarrow> Inr outcome
      | Inl error \<Rightarrow>
          (let fallbackBPM = 72
           in Inr \<lparr>setRealBPM_calls = [fallbackBPM],
                   returned = generateRealisticECG 1000 SAMPLING_RATE
                     (Some (of_int fallbackBPM)) random\<rparr>))"


section \<open>Properties of the rounding\<close>

lemma floor_log2_eq:
  fixes x :: real
  assumes "2 powi e \<le> \<bar>x\<bar>" and "\<bar>x\<bar> < 2 powi (e + 1)"
  shows "\<lfloor>log 2 \<bar>x\<bar>\<rfloor> = e"
proof -
  have "(0::real) < 2 powi e" by simp
  with assms(1) have pos: "0 < \<bar>x\<bar>" by linarith
  have lo: "(2::real) powr real_of_int e = 2 powi e"
    by (simp add: powr_real_of_int')
  have hi: "(2::real) powr (real_of_int e + 1) = 2 powi (e + 1)"
    using powr_real_of_int' [of 2 "e + 1"] by simp
  from assms have "2 powr real_of_int e \<le> \<bar>x\<bar> \<and> \<bar>x\<bar> < 2 powr (real_of_int e + 1)"
    by (simp only: lo hi)
  with pos show ?thesis
    by (simp add: floor_log_eq_powr_iff)
qed

text \<open>
  How a rounding is computed: \<open>x\<close> lies in the binade of \<open>2 powi e\<close>, \<open>n\<close> is its
  significand rounded to an integer, and the result is \<open>n\<close> units in the last place.
\<close>

lemma round64_eval:
  assumes "2 powi e \<le> \<bar>x\<bar>" and "\<bar>x\<bar> < 2 powi (e + 1)" and "- 1022 \<le> e"
    and "round_even (x / 2 powi (e - 52)) = n"
    and "y = of_int n * 2 powi (e - 52)"
    and "\<bar>y\<bar> < 2 ^ 1024"
  shows "round64 x = Finite y"
proof -
  have "\<lfloor>log 2 \<bar>x\<bar>\<rfloor> = e" using assms(1,2) by (rule floor_log2_eq)
  with assms(3) have u: "ulp_exponent x = e - 52" by (simp add: ulp_exponent_def)
  have "(0::real) < 2 powi e" by simp
  with assms(1) have "0 < \<bar>x\<bar>" by linarith
  then have "x \<noteq> 0" by simp
  with assms(4,5,6) show ?thesis
    by (simp add: round64_def u Let_def)
qed

lemmas round64_arith = round_even_def power_int_def power_one_over Let_def

lemma round_even_nonneg: "0 \<le> y \<Longrightarrow> 0 \<le> round_even y"
  by (auto simp: round_even_def Let_def)

lemma round64_nonneg: "0 \<le> x \<Longrightarrow> nonneg (round64 x)"
proof (cases "x = 0")
  case True
  then show ?thesis by (simp add: round64_def)
next
  case False
  assume "0 \<le> x"
  with False have x: "0 < x" by simp
  have u: "(0::real) < 2 powi ulp_exponent x" by simp
  with x have "0 \<le> x / 2 powi ulp_exponent x" by simp
  then have "0 \<le> round_even (x / 2 powi ulp_exponent x)" by (rule round_even_nonneg)
  with u have "(0::real) \<le> of_int (round_even (x / 2 powi ulp_exponent x)) * 2 powi ulp_exponent x"
    by (intro mult_nonneg_nonneg) simp_all
  with x show ?thesis
    by (simp add: round64_def Let_def)
qed

lemma nonneg_cases:
  assumes "nonneg a"
  obtains x where "a = Finite x" and "0 \<le> x" | "a = PosInfinity"
  using assms by (cases a) simp_all

lemma nonneg_add: "nonneg a \<Longrightarrow> nonneg b \<Longrightarrow> nonneg (num_add a b)"
  by (elim nonneg_cases) (simp_all add: round64_nonneg)

lemma nonneg_div_count: "nonneg a \<Longrightarrow> 0 < n \<Longrightarrow> nonneg (num_div a (Finite n))"
  by (elim nonneg_cases) (simp_all add: round64_nonneg)

lemma nonneg_div_60: "nonneg a \<Longrightarrow> nonneg (num_div (Finite 60) a)"
  by (elim nonneg_cases) (simp_all add: round64_nonneg)

lemma nonneg_Math_round: "nonneg a \<Longrightarrow> nonneg (Math_round a)"
  by (elim nonneg_cases) simp_all

lemma nonneg_foldl: "nonneg a \<Longrightarrow> \<forall>r \<in> set rs. nonneg r \<Longrightarrow> nonneg (foldl num_add a rs)"
  by (induction rs arbitrary: a) (simp_all add: nonneg_add)

text \<open>On the numbers that are not negative the order is total.\<close>

lemma nonneg_in_range: "nonneg a \<Longrightarrow> in_range a \<longleftrightarrow> \<not> (num_lt a (Finite 40) \<or> num_gt a (Finite 180))"
  by (elim nonneg_cases) (auto simp: in_range_def num_gt_def)

lemma in_range_integer:
  assumes "in_range (Math_round a)"
  shows "Math_round a = Finite (of_int (int_of (Math_round a)))
       \<and> 40 \<le> int_of (Math_round a) \<and> int_of (Math_round a) \<le> 180"
proof (cases a)
  case (Finite x)
  with assms show ?thesis
    by (simp add: in_range_def int_of_def)
qed (use assms in \<open>simp_all add: in_range_def\<close>)

section \<open>Properties of the estimator\<close>

subsection \<open>The filter\<close>

lemma get_prop_not_nullish: "\<not> nullish v \<Longrightarrow> get_prop v k = Inr (field v k)"
  by (cases v) (simp_all add: field_def)

lemma get_prop_nullish: "nullish v \<Longrightarrow> get_prop v k = Inl TypeError"
  by (cases v) simp_all

lemma is_qrs_event_not_nullish: "\<not> nullish v \<Longrightarrow> is_qrs_event v = Inr (qualifies v)"
  by (simp add: is_qrs_event_def qualifies_def qrs_labelled_def get_prop_not_nullish)

lemma is_qrs_event_nullish: "nullish v \<Longrightarrow> is_qrs_event v = Inl TypeError"
  by (simp add: is_qrs_event_def get_prop_nullish)

lemma filter_events_not_nullish:
  "\<forall>v \<in> set intervals. \<not> nullish v \<Longrightarrow>
   filter_events intervals = Inr (filter qualifies intervals)"
  by (induction intervals) (simp_all add: is_qrs_event_not_nullish)

text \<open>A \<^verbatim>\<open>null\<close> among the elements makes the filter, and so the estimator, raise.\<close>

lemma filter_events_nullish:
  "\<exists>v \<in> set intervals. nullish v \<Longrightarrow> filter_events intervals = Inl TypeError"
proof (induction intervals)
  case Nil
  then show ?case by simp
next
  case (Cons v vs)
  show ?case
  proof (cases "nullish v")
    case True
    then show ?thesis by (simp add: is_qrs_event_nullish)
  next
    case False
    with Cons.prems have "\<exists>v \<in> set vs. nullish v" by simp
    then have "filter_events vs = Inl TypeError" by (rule Cons.IH)
    with False show ?thesis by (simp add: is_qrs_event_not_nullish)
  qed
qed

text \<open>What passed the filter has a numeric entry: \<open>entry_of\<close> reads a number there.\<close>

lemma entry_of_field:
  "entry_of v = (case field v ''entry'' of JNum r \<Rightarrow> round64 r | _ \<Rightarrow> NaN)"
  by (cases "get_prop v ''entry''") (simp_all add: field_def)

lemma filter_events_entry:
  assumes "filter_events intervals = Inr qrsEvents" and "v \<in> set qrsEvents"
  shows "\<exists>r. get_prop v ''entry'' = Inr (JNum r) \<and> entry_of v = round64 r"
proof -
  have sub: "filter_events xs = Inr ys \<Longrightarrow> v \<in> set ys \<Longrightarrow> is_qrs_event v = Inr True" for xs ys
  proof (induction xs arbitrary: ys)
    case Nil
    then show ?case by simp
  next
    case (Cons x xs)
    then show ?case
      by (auto split: sum.splits if_splits)
  qed
  from assms have "is_qrs_event v = Inr True" by (rule sub)
  then obtain en where en: "get_prop v ''entry'' = Inr en" and num: "typeof_number en"
    by (auto simp: is_qrs_event_def split: sum.splits if_splits)
  from num obtain r where "en = JNum r" by (cases en) simp_all
  with en show ?thesis by simp
qed

subsection \<open>The loop\<close>

lemma rr_loop_eq:
  "rr_loop qs i tot cnt =
     (foldl num_add tot
        (surviving (map (\<lambda>j. num_sub (entry_of (qs ! j)) (entry_of (qs ! (j - 1)))) [i..<length qs])),
      cnt + length
        (surviving (map (\<lambda>j. num_sub (entry_of (qs ! j)) (entry_of (qs ! (j - 1)))) [i..<length qs])))"
proof (induction qs i tot cnt rule: rr_loop.induct)
  case (1 qs i tot cnt)
  show ?case
  proof (cases "i < length qs")
    case False
    then show ?thesis by (subst rr_loop.simps) (simp add: surviving_def)
  next
    case True
    then have upt: "[i..<length qs] = i # [i + 1..<length qs]"
      by (simp add: upt_conv_Cons)
    show ?thesis
      using True 1
      by (subst rr_loop.simps)
        (simp add: upt surviving_def plausible_def Let_def del: entry_of.simps)
  qed
qed

lemma rr_diffs:
  "map (\<lambda>j. num_sub (entry_of (qs ! j)) (entry_of (qs ! (j - 1)))) [1..<length qs]
     = rr_intervals (map entry_of qs)"
  unfolding rr_intervals_def
  by (rule map_cong) (auto simp del: entry_of.simps)

lemma rr_loop_spec:
  "rr_loop qs 1 (Finite 0) 0 =
     (total (surviving (rr_intervals (map entry_of qs))),
      length (surviving (rr_intervals (map entry_of qs))))"
  by (simp only: rr_loop_eq rr_diffs total_def) simp

lemma length_qrs_entries: "length (qrs_entries intervals) = length (filter qualifies intervals)"
  by (simp add: qrs_entries_def)

lemma surviving_empty_conv: "surviving rrs = [] \<longleftrightarrow> (\<forall>rr \<in> set rrs. \<not> plausible rr)"
  by (simp add: surviving_def filter_empty_conv)

lemma rr_intervals_short: "length ts < 2 \<Longrightarrow> rr_intervals ts = []"
  by (simp add: rr_intervals_def)

subsection \<open>The rate is never NaN\<close>

lemma plausible_nonneg: "plausible rr \<Longrightarrow> nonneg rr"
proof -
  assume p: "plausible rr"
  have "nonneg (round64 0.3)" by (rule round64_nonneg) simp
  then show ?thesis
  proof (cases rule: nonneg_cases)
    case (1 c)
    with p show ?thesis
      by (cases rr) (simp_all add: plausible_def num_gt_def)
  next
    case 2
    with p show ?thesis
      by (simp add: plausible_def num_gt_def)
  qed
qed

lemma spec_bpm_nonneg:
  assumes "surviving (rr_intervals (qrs_entries intervals)) \<noteq> []"
  shows "nonneg (spec_bpm intervals)"
proof -
  let ?rrs = "surviving (rr_intervals (qrs_entries intervals))"
  have "\<forall>r \<in> set ?rrs. nonneg r"
    by (simp add: surviving_def plausible_nonneg)
  then have "nonneg (total ?rrs)"
    unfolding total_def by (intro nonneg_foldl) simp_all
  moreover from assms have "0 < real (length ?rrs)" by simp
  ultimately have "nonneg (average ?rrs)"
    unfolding average_def by (rule nonneg_div_count)
  then show ?thesis
    unfolding spec_bpm_def by (intro nonneg_Math_round nonneg_div_60)
qed

lemma spec_bpm_not_NaN:
  "surviving (rr_intervals (qrs_entries intervals)) \<noteq> [] \<Longrightarrow> spec_bpm intervals \<noteq> NaN"
  using spec_bpm_nonneg [of intervals] by auto

subsection \<open>The estimator, case by case\<close>

lemma calculateStableBPM_char:
  assumes "\<forall>v \<in> set intervals. \<not> nullish v"
  shows "calculateStableBPM intervals =
     (if length (qrs_entries intervals) < 2 then Inl InsufficientData
      else if surviving (rr_intervals (qrs_entries intervals)) = [] then Inl NoValidIntervals
      else if in_range (spec_bpm intervals) then Inr (int_of (spec_bpm intervals))
      else Inl (OutOfRange (spec_bpm intervals)))"
proof -
  let ?rrs = "surviving (rr_intervals (qrs_entries intervals))"
  have f: "filter_events intervals = Inr (filter qualifies intervals)"
    using assms by (rule filter_events_not_nullish)
  have l: "rr_loop (filter qualifies intervals) 1 (Finite 0) 0 = (total ?rrs, length ?rrs)"
    by (simp only: rr_loop_spec qrs_entries_def)
  have c: "calculateStableBPM intervals =
      (if length (filter qualifies intervals) < 2 then Inl InsufficientData
       else if length ?rrs = 0 then Inl NoValidIntervals
       else (let avgRR = num_div (total ?rrs) (Finite (real (length ?rrs)));
                 bpm = Math_round (num_div (Finite 60) avgRR)
             in if num_lt bpm (Finite 40) \<or> num_gt bpm (Finite 180) then Inl (OutOfRange bpm)
                else Inr (int_of bpm)))"
    by (simp only: calculateStableBPM_def f sum.case l prod.case)
  show ?thesis
  proof (cases "?rrs = []")
    case True
    with c show ?thesis by (simp add: length_qrs_entries)
  next
    case False
    then have "nonneg (spec_bpm intervals)" by (rule spec_bpm_nonneg)
    then have "in_range (spec_bpm intervals)
        \<longleftrightarrow> \<not> (num_lt (spec_bpm intervals) (Finite 40) \<or> num_gt (spec_bpm intervals) (Finite 180))"
      by (rule nonneg_in_range)
    with c False show ?thesis
      by (simp add: length_qrs_entries Let_def spec_bpm_def average_def)
  qed
qed

lemma in_range_spec_bpm:
  assumes "in_range (spec_bpm intervals)"
  shows "spec_bpm intervals = Finite (of_int (int_of (spec_bpm intervals)))
       \<and> 40 \<le> int_of (spec_bpm intervals) \<and> int_of (spec_bpm intervals) \<le> 180"
  using assms unfolding spec_bpm_def by (rule in_range_integer)

lemmas estimator_eval =
  qrs_entries_def qualifies_def qrs_labelled_def field_def qrs_event_def phase_event_def
  exact_entries_def

subsection \<open>Only the QRS-labelled records count\<close>

lemma qrs_entries_qrs_records:
  "qrs_entries intervals =
     map (\<lambda>p. case fst p of JNum r \<Rightarrow> round64 r | _ \<Rightarrow> NaN)
       (filter (\<lambda>p. typeof_number (fst p) \<and> typeof_number (snd p)) (qrs_records intervals))"
proof -
  have q: "qualifies = (\<lambda>v. qrs_labelled v \<and> typeof_number (fst (timing v))
                             \<and> typeof_number (snd (timing v)))"
    by (rule ext) (simp add: qualifies_def timing_def)
  have e: "entry_of = (\<lambda>v. case fst (timing v) of JNum r \<Rightarrow> round64 r | _ \<Rightarrow> NaN)"
    by (rule ext) (simp only: entry_of_field timing_def fst_conv)
  show ?thesis
    unfolding qrs_entries_def qrs_records_def q e
    by (simp add: filter_map o_def)
qed


subsection \<open>Evaluating the estimator on records\<close>

lemma qualifies_phase_event: "qualifies (phase_event ph en du) \<longleftrightarrow> ph = ''QRS''"
  by (simp add: qualifies_def qrs_labelled_def field_def phase_event_def)

lemma qualifies_qrs_event: "qualifies (qrs_event en du)"
  by (simp add: qrs_event_def qualifies_phase_event)

lemma entry_of_qrs_event: "entry_of (qrs_event en du) = round64 en"
  by (simp add: qrs_event_def phase_event_def)

lemma round64_0_3: "round64 0.3 = Finite (5404319552844595 / 2 ^ 54)"
  by (rule round64_eval [where e = "- 2" and n = 5404319552844595]) (simp_all add: round64_arith)

lemma round64_2: "round64 2.0 = Finite 2"
  by (rule round64_eval [where e = 1 and n = "2 ^ 52"]) (simp_all add: round64_arith)

lemma plausible_Finite: "plausible (Finite r) \<longleftrightarrow> 5404319552844595 / 2 ^ 54 < r \<and> r < 2"
  by (simp only: plausible_def round64_0_3 round64_2 num_gt_def num_lt.simps)

lemma estimate_four_beats:
  "length (filter qualifies [qrs_event 0.0 d0, qrs_event 0.8 d1, qrs_event 1.6 d2, qrs_event 2.4 d3]) = 4
   \<and> surviving (rr_intervals (qrs_entries [qrs_event 0.0 d0, qrs_event 0.8 d1, qrs_event 1.6 d2, qrs_event 2.4 d3])) \<noteq> []
   \<and> spec_bpm [qrs_event 0.0 d0, qrs_event 0.8 d1, qrs_event 1.6 d2, qrs_event 2.4 d3] = Finite 75
   \<and> calculateStableBPM [qrs_event 0.0 d0, qrs_event 0.8 d1, qrs_event 1.6 d2, qrs_event 2.4 d3] = Inr 75"
proof -
  let ?w = "[qrs_event 0.0 d0, qrs_event 0.8 d1, qrs_event 1.6 d2, qrs_event 2.4 d3]"
  define e0 where "e0 = (0 :: real)"
  have l0: "round64 0.0 = Finite e0"
    by (simp add: round64_def e0_def)
  define e1 where "e1 = (3602879701896397 / 2 ^ 52 :: real)"
  have l1: "round64 0.8 = Finite e1"
    unfolding e1_def
    by (rule round64_eval [where e = "- 1" and n = 7205759403792794]) (simp_all add: round64_arith)
  define e2 where "e2 = (3602879701896397 / 2 ^ 51 :: real)"
  have l2: "round64 1.6 = Finite e2"
    unfolding e2_def
    by (rule round64_eval [where e = "0" and n = 7205759403792794]) (simp_all add: round64_arith)
  define e3 where "e3 = (5404319552844595 / 2 ^ 51 :: real)"
  have l3: "round64 2.4 = Finite e3"
    unfolding e3_def
    by (rule round64_eval [where e = "1" and n = 5404319552844595]) (simp_all add: round64_arith)
  have nn: "\<forall>v \<in> set ?w. \<not> nullish v"
    by (simp add: qrs_event_def phase_event_def)
  have q: "filter qualifies ?w = [qrs_event 0.0 d0, qrs_event 0.8 d1, qrs_event 1.6 d2, qrs_event 2.4 d3]"
    by (simp add: qualifies_qrs_event qualifies_phase_event)
  have en0: "qrs_entries ?w = [round64 0.0, round64 0.8, round64 1.6, round64 2.4]"
    by (simp only: qrs_entries_def q list.map entry_of_qrs_event)
  have en: "qrs_entries ?w = [Finite e0, Finite e1, Finite e2, Finite e3]"
    by (simp only: en0 l0 l1 l2 l3)
  define r1 where "r1 = (3602879701896397 / 2 ^ 52 :: real)"
  have hr1: "round64 (e1 - e0) = Finite r1"
    unfolding e1_def e0_def r1_def
    by (rule round64_eval [where e = "- 1" and n = 7205759403792794]) (simp_all add: round64_arith)
  define r2 where "r2 = (3602879701896397 / 2 ^ 52 :: real)"
  have hr2: "round64 (e2 - e1) = Finite r2"
    unfolding e2_def e1_def r2_def
    by (rule round64_eval [where e = "- 1" and n = 7205759403792794]) (simp_all add: round64_arith)
  define r3 where "r3 = (900719925474099 / 2 ^ 50 :: real)"
  have hr3: "round64 (e3 - e2) = Finite r3"
    unfolding e3_def e2_def r3_def
    by (rule round64_eval [where e = "- 1" and n = 7205759403792792]) (simp_all add: round64_arith)
  have rr: "rr_intervals [Finite e0, Finite e1, Finite e2, Finite e3] = [Finite r1, Finite r2, Finite r3]"
    by (simp add: rr_intervals_def upt_conv_Cons hr1 hr2 hr3)
  have p1: "plausible (Finite r1)"
    unfolding r1_def by (simp add: plausible_Finite)
  have p2: "plausible (Finite r2)"
    unfolding r2_def by (simp add: plausible_Finite)
  have p3: "plausible (Finite r3)"
    unfolding r3_def by (simp add: plausible_Finite)
  have sv: "surviving [Finite r1, Finite r2, Finite r3] = [Finite r1, Finite r2, Finite r3]"
    by (simp add: surviving_def p1 p2 p3)
  have lq: "length (filter qualifies ?w) = 4"
    by (simp only: q list.size)
  have ht0: "round64 r1 = Finite r1"
    unfolding r1_def
    by (rule round64_eval [where e = "- 1" and n = 7205759403792794]) (simp_all add: round64_arith)
  define t1 where "t1 = (3602879701896397 / 2 ^ 51 :: real)"
  have ht1: "round64 (r1 + r2) = Finite t1"
    unfolding r1_def r2_def t1_def
    by (rule round64_eval [where e = "0" and n = 7205759403792794]) (simp_all add: round64_arith)
  define t2 where "t2 = (5404319552844595 / 2 ^ 51 :: real)"
  have ht2: "round64 (t1 + r3) = Finite t2"
    unfolding t1_def r3_def t2_def
    by (rule round64_eval [where e = "1" and n = 5404319552844595]) (simp_all add: round64_arith)
  have tt: "total [Finite r1, Finite r2, Finite r3] = Finite t2"
    by (simp add: total_def ht0 ht1 ht2)
  define av where "av = (7205759403792793 / 2 ^ 53 :: real)"
  have hav: "round64 (t2 / 3) = Finite av"
    unfolding t2_def av_def
    by (rule round64_eval [where e = "- 1" and n = 7205759403792793]) (simp_all add: round64_arith)
  have avg: "average [Finite r1, Finite r2, Finite r3] = Finite av"
    by (simp add: average_def tt hav)
  define qt where "qt = (75 :: real)"
  have av0: "av \<noteq> 0"
    unfolding av_def by simp
  have hq: "round64 (60 / av) = Finite qt"
    unfolding av_def qt_def
    by (rule round64_eval [where e = "6" and n = 5277655813324800]) (simp_all add: round64_arith)
  have fl: "\<lfloor>qt + 1 / 2\<rfloor> = 75"
    unfolding qt_def by simp
  have b: "spec_bpm ?w = Finite 75"
    by (simp only: spec_bpm_def en rr sv avg) (simp add: av0 hq fl)
  have s0: "surviving (rr_intervals (qrs_entries ?w)) \<noteq> []"
    by (simp only: en rr sv) simp
  have c: "calculateStableBPM ?w = Inr 75"
    by (simp only: calculateStableBPM_char [OF nn] length_qrs_entries lq s0 b)
      (simp add: in_range_def int_of_def)
  show ?thesis
    by (intro conjI lq s0 b c)
qed

lemmas estimate_four_beats_count = estimate_four_beats [THEN conjunct1]

lemmas estimate_four_beats_surviving = estimate_four_beats [THEN conjunct2, THEN conjunct1]

lemmas estimate_four_beats_bpm = estimate_four_beats [THEN conjunct2, THEN conjunct2, THEN conjunct1]

lemmas estimate_four_beats_result = estimate_four_beats [THEN conjunct2, THEN conjunct2, THEN conjunct2]

lemma exact_four_beats:
  "exact_surviving (exact_rr_intervals (exact_entries [qrs_event 0.0 d0, qrs_event 0.8 d1, qrs_event 1.6 d2, qrs_event 2.4 d3])) \<noteq> []
   \<and> exact_bpm [qrs_event 0.0 d0, qrs_event 0.8 d1, qrs_event 1.6 d2, qrs_event 2.4 d3] = 75"
proof -
  let ?w = "[qrs_event 0.0 d0, qrs_event 0.8 d1, qrs_event 1.6 d2, qrs_event 2.4 d3]"
  define e0 where "e0 = (0 :: real)"
  have l0: "round64 0.0 = Finite e0"
    by (simp add: round64_def e0_def)
  define e1 where "e1 = (3602879701896397 / 2 ^ 52 :: real)"
  have l1: "round64 0.8 = Finite e1"
    unfolding e1_def
    by (rule round64_eval [where e = "- 1" and n = 7205759403792794]) (simp_all add: round64_arith)
  define e2 where "e2 = (3602879701896397 / 2 ^ 51 :: real)"
  have l2: "round64 1.6 = Finite e2"
    unfolding e2_def
    by (rule round64_eval [where e = "0" and n = 7205759403792794]) (simp_all add: round64_arith)
  define e3 where "e3 = (5404319552844595 / 2 ^ 51 :: real)"
  have l3: "round64 2.4 = Finite e3"
    unfolding e3_def
    by (rule round64_eval [where e = "1" and n = 5404319552844595]) (simp_all add: round64_arith)
  have q: "filter qualifies ?w = [qrs_event 0.0 d0, qrs_event 0.8 d1, qrs_event 1.6 d2, qrs_event 2.4 d3]"
    by (simp add: qualifies_qrs_event qualifies_phase_event)
  have en0: "exact_entries ?w = [real_of (round64 0.0), real_of (round64 0.8), real_of (round64 1.6), real_of (round64 2.4)]"
    by (simp only: exact_entries_def q list.map entry_of_qrs_event)
  have en: "exact_entries ?w = [e0, e1, e2, e3]"
    by (simp only: en0 l0 l1 l2 l3 real_of.simps)
  have s: "exact_surviving (exact_rr_intervals (exact_entries ?w)) \<noteq> []"
    unfolding en by (simp add: exact_rr_intervals_def exact_surviving_def upt_conv_Cons e0_def e1_def e2_def e3_def)
  have b: "exact_bpm ?w = 75"
    unfolding exact_bpm_def en
    by (simp add: exact_rr_intervals_def exact_surviving_def exact_average_def round_half_away_def upt_conv_Cons e0_def e1_def e2_def e3_def)
  show ?thesis
    by (intro conjI s b)
qed

lemmas exact_four_beats_surviving = exact_four_beats [THEN conjunct1]

lemmas exact_four_beats_bpm = exact_four_beats [THEN conjunct2]

lemma estimate_three_beats:
  "length (filter qualifies [qrs_event 0.07 0.1, qrs_event 0.926 0.1, qrs_event 1.99 0.1]) = 3
   \<and> surviving (rr_intervals (qrs_entries [qrs_event 0.07 0.1, qrs_event 0.926 0.1, qrs_event 1.99 0.1])) \<noteq> []
   \<and> spec_bpm [qrs_event 0.07 0.1, qrs_event 0.926 0.1, qrs_event 1.99 0.1] = Finite 62
   \<and> calculateStableBPM [qrs_event 0.07 0.1, qrs_event 0.926 0.1, qrs_event 1.99 0.1] = Inr 62"
proof -
  let ?w = "[qrs_event 0.07 0.1, qrs_event 0.926 0.1, qrs_event 1.99 0.1]"
  define e0 where "e0 = (1261007895663739 / 2 ^ 54 :: real)"
  have l0: "round64 0.07 = Finite e0"
    unfolding e0_def
    by (rule round64_eval [where e = "- 4" and n = 5044031582654956]) (simp_all add: round64_arith)
  define e1 where "e1 = (8340666509890159 / 2 ^ 53 :: real)"
  have l1: "round64 0.926 = Finite e1"
    unfolding e1_def
    by (rule round64_eval [where e = "- 1" and n = 8340666509890159]) (simp_all add: round64_arith)
  define e2 where "e2 = (8962163258467287 / 2 ^ 52 :: real)"
  have l2: "round64 1.99 = Finite e2"
    unfolding e2_def
    by (rule round64_eval [where e = "0" and n = 8962163258467287]) (simp_all add: round64_arith)
  have nn: "\<forall>v \<in> set ?w. \<not> nullish v"
    by (simp add: qrs_event_def phase_event_def)
  have q: "filter qualifies ?w = [qrs_event 0.07 0.1, qrs_event 0.926 0.1, qrs_event 1.99 0.1]"
    by (simp add: qualifies_qrs_event qualifies_phase_event)
  have en0: "qrs_entries ?w = [round64 0.07, round64 0.926, round64 1.99]"
    by (simp only: qrs_entries_def q list.map entry_of_qrs_event)
  have en: "qrs_entries ?w = [Finite e0, Finite e1, Finite e2]"
    by (simp only: en0 l0 l1 l2)
  define r1 where "r1 = (3855081281029145 / 2 ^ 52 :: real)"
  have hr1: "round64 (e1 - e0) = Finite r1"
    unfolding e1_def e0_def r1_def
    by (rule round64_eval [where e = "- 1" and n = 7710162562058290]) (simp_all add: round64_arith)
  define r2 where "r2 = (149744687610069 / 2 ^ 47 :: real)"
  have hr2: "round64 (e2 - e1) = Finite r2"
    unfolding e2_def e1_def r2_def
    by (rule round64_eval [where e = "0" and n = 4791830003522208]) (simp_all add: round64_arith)
  have rr: "rr_intervals [Finite e0, Finite e1, Finite e2] = [Finite r1, Finite r2]"
    by (simp add: rr_intervals_def upt_conv_Cons hr1 hr2)
  have p1: "plausible (Finite r1)"
    unfolding r1_def by (simp add: plausible_Finite)
  have p2: "plausible (Finite r2)"
    unfolding r2_def by (simp add: plausible_Finite)
  have sv: "surviving [Finite r1, Finite r2] = [Finite r1, Finite r2]"
    by (simp add: surviving_def p1 p2)
  have lq: "length (filter qualifies ?w) = 3"
    by (simp only: q list.size)
  have ht0: "round64 r1 = Finite r1"
    unfolding r1_def
    by (rule round64_eval [where e = "- 1" and n = 7710162562058290]) (simp_all add: round64_arith)
  define t1 where "t1 = (8646911284551353 / 2 ^ 52 :: real)"
  have ht1: "round64 (r1 + r2) = Finite t1"
    unfolding r1_def r2_def t1_def
    by (rule round64_eval [where e = "0" and n = 8646911284551353]) (simp_all add: round64_arith)
  have tt: "total [Finite r1, Finite r2] = Finite t1"
    by (simp add: total_def ht0 ht1)
  define av where "av = (8646911284551353 / 2 ^ 53 :: real)"
  have hav: "round64 (t1 / 2) = Finite av"
    unfolding t1_def av_def
    by (rule round64_eval [where e = "- 1" and n = 8646911284551353]) (simp_all add: round64_arith)
  have avg: "average [Finite r1, Finite r2] = Finite av"
    by (simp add: average_def tt hav)
  define qt where "qt = (8796093022207999 / 2 ^ 47 :: real)"
  have av0: "av \<noteq> 0"
    unfolding av_def by simp
  have hq: "round64 (60 / av) = Finite qt"
    unfolding av_def qt_def
    by (rule round64_eval [where e = "5" and n = 8796093022207999]) (simp_all add: round64_arith)
  have fl: "\<lfloor>qt + 1 / 2\<rfloor> = 62"
    unfolding qt_def by simp
  have b: "spec_bpm ?w = Finite 62"
    by (simp only: spec_bpm_def en rr sv avg) (simp add: av0 hq fl)
  have s0: "surviving (rr_intervals (qrs_entries ?w)) \<noteq> []"
    by (simp only: en rr sv) simp
  have c: "calculateStableBPM ?w = Inr 62"
    by (simp only: calculateStableBPM_char [OF nn] length_qrs_entries lq s0 b)
      (simp add: in_range_def int_of_def)
  show ?thesis
    by (intro conjI lq s0 b c)
qed

lemmas estimate_three_beats_count = estimate_three_beats [THEN conjunct1]

lemmas estimate_three_beats_surviving = estimate_three_beats [THEN conjunct2, THEN conjunct1]

lemmas estimate_three_beats_bpm = estimate_three_beats [THEN conjunct2, THEN conjunct2, THEN conjunct1]

lemmas estimate_three_beats_result = estimate_three_beats [THEN conjunct2, THEN conjunct2, THEN conjunct2]

lemma exact_three_beats:
  "exact_surviving (exact_rr_intervals (exact_entries [qrs_event 0.07 0.1, qrs_event 0.926 0.1, qrs_event 1.99 0.1])) \<noteq> []
   \<and> exact_bpm [qrs_event 0.07 0.1, qrs_event 0.926 0.1, qrs_event 1.99 0.1] = 63"
proof -
  let ?w = "[qrs_event 0.07 0.1, qrs_event 0.926 0.1, qrs_event 1.99 0.1]"
  define e0 where "e0 = (1261007895663739 / 2 ^ 54 :: real)"
  have l0: "round64 0.07 = Finite e0"
    unfolding e0_def
    by (rule round64_eval [where e = "- 4" and n = 5044031582654956]) (simp_all add: round64_arith)
  define e1 where "e1 = (8340666509890159 / 2 ^ 53 :: real)"
  have l1: "round64 0.926 = Finite e1"
    unfolding e1_def
    by (rule round64_eval [where e = "- 1" and n = 8340666509890159]) (simp_all add: round64_arith)
  define e2 where "e2 = (8962163258467287 / 2 ^ 52 :: real)"
  have l2: "round64 1.99 = Finite e2"
    unfolding e2_def
    by (rule round64_eval [where e = "0" and n = 8962163258467287]) (simp_all add: round64_arith)
  have q: "filter qualifies ?w = [qrs_event 0.07 0.1, qrs_event 0.926 0.1, qrs_event 1.99 0.1]"
    by (simp add: qualifies_qrs_event qualifies_phase_event)
  have en0: "exact_entries ?w = [real_of (round64 0.07), real_of (round64 0.926), real_of (round64 1.99)]"
    by (simp only: exact_entries_def q list.map entry_of_qrs_event)
  have en: "exact_entries ?w = [e0, e1, e2]"
    by (simp only: en0 l0 l1 l2 real_of.simps)
  have s: "exact_surviving (exact_rr_intervals (exact_entries ?w)) \<noteq> []"
    unfolding en by (simp add: exact_rr_intervals_def exact_surviving_def upt_conv_Cons e0_def e1_def e2_def)
  have b: "exact_bpm ?w = 63"
    unfolding exact_bpm_def en
    by (simp add: exact_rr_intervals_def exact_surviving_def exact_average_def round_half_away_def upt_conv_Cons e0_def e1_def e2_def)
  show ?thesis
    by (intro conjI s b)
qed

lemmas exact_three_beats_surviving = exact_three_beats [THEN conjunct1]

lemmas exact_three_beats_bpm = exact_three_beats [THEN conjunct2]

lemma estimate_mixed_record:
  "length (filter qualifies [phase_event ''PQ'' 0.5 0.1, qrs_event 0 0.1, qrs_event 0.8 0.1, qrs_event 1.6 0.1, phase_event ''ST'' 1.7 0.3, qrs_event 4 0.1]) = 4
   \<and> surviving (rr_intervals (qrs_entries [phase_event ''PQ'' 0.5 0.1, qrs_event 0 0.1, qrs_event 0.8 0.1, qrs_event 1.6 0.1, phase_event ''ST'' 1.7 0.3, qrs_event 4 0.1])) \<noteq> []
   \<and> spec_bpm [phase_event ''PQ'' 0.5 0.1, qrs_event 0 0.1, qrs_event 0.8 0.1, qrs_event 1.6 0.1, phase_event ''ST'' 1.7 0.3, qrs_event 4 0.1] = Finite 75
   \<and> calculateStableBPM [phase_event ''PQ'' 0.5 0.1, qrs_event 0 0.1, qrs_event 0.8 0.1, qrs_event 1.6 0.1, phase_event ''ST'' 1.7 0.3, qrs_event 4 0.1] = Inr 75"
proof -
  let ?w = "[phase_event ''PQ'' 0.5 0.1, qrs_event 0 0.1, qrs_event 0.8 0.1, qrs_event 1.6 0.1, phase_event ''ST'' 1.7 0.3, qrs_event 4 0.1]"
  define e0 where "e0 = (0 :: real)"
  have l0: "round64 0 = Finite e0"
    by (simp add: round64_def e0_def)
  define e1 where "e1 = (3602879701896397 / 2 ^ 52 :: real)"
  have l1: "round64 0.8 = Finite e1"
    unfolding e1_def
    by (rule round64_eval [where e = "- 1" and n = 7205759403792794]) (simp_all add: round64_arith)
  define e2 where "e2 = (3602879701896397 / 2 ^ 51 :: real)"
  have l2: "round64 1.6 = Finite e2"
    unfolding e2_def
    by (rule round64_eval [where e = "0" and n = 7205759403792794]) (simp_all add: round64_arith)
  define e3 where "e3 = (4 :: real)"
  have l3: "round64 4 = Finite e3"
    unfolding e3_def
    by (rule round64_eval [where e = "2" and n = 4503599627370496]) (simp_all add: round64_arith)
  have nn: "\<forall>v \<in> set ?w. \<not> nullish v"
    by (simp add: qrs_event_def phase_event_def)
  have q: "filter qualifies ?w = [qrs_event 0 0.1, qrs_event 0.8 0.1, qrs_event 1.6 0.1, qrs_event 4 0.1]"
    by (simp add: qualifies_qrs_event qualifies_phase_event)
  have en0: "qrs_entries ?w = [round64 0, round64 0.8, round64 1.6, round64 4]"
    by (simp only: qrs_entries_def q list.map entry_of_qrs_event)
  have en: "qrs_entries ?w = [Finite e0, Finite e1, Finite e2, Finite e3]"
    by (simp only: en0 l0 l1 l2 l3)
  define r1 where "r1 = (3602879701896397 / 2 ^ 52 :: real)"
  have hr1: "round64 (e1 - e0) = Finite r1"
    unfolding e1_def e0_def r1_def
    by (rule round64_eval [where e = "- 1" and n = 7205759403792794]) (simp_all add: round64_arith)
  define r2 where "r2 = (3602879701896397 / 2 ^ 52 :: real)"
  have hr2: "round64 (e2 - e1) = Finite r2"
    unfolding e2_def e1_def r2_def
    by (rule round64_eval [where e = "- 1" and n = 7205759403792794]) (simp_all add: round64_arith)
  define r3 where "r3 = (5404319552844595 / 2 ^ 51 :: real)"
  have hr3: "round64 (e3 - e2) = Finite r3"
    unfolding e3_def e2_def r3_def
    by (rule round64_eval [where e = "1" and n = 5404319552844595]) (simp_all add: round64_arith)
  have rr: "rr_intervals [Finite e0, Finite e1, Finite e2, Finite e3] = [Finite r1, Finite r2, Finite r3]"
    by (simp add: rr_intervals_def upt_conv_Cons hr1 hr2 hr3)
  have p1: "plausible (Finite r1)"
    unfolding r1_def by (simp add: plausible_Finite)
  have p2: "plausible (Finite r2)"
    unfolding r2_def by (simp add: plausible_Finite)
  have p3: "\<not> plausible (Finite r3)"
    unfolding r3_def by (simp add: plausible_Finite)
  have sv: "surviving [Finite r1, Finite r2, Finite r3] = [Finite r1, Finite r2]"
    by (simp add: surviving_def p1 p2 p3)
  have lq: "length (filter qualifies ?w) = 4"
    by (simp only: q list.size)
  have ht0: "round64 r1 = Finite r1"
    unfolding r1_def
    by (rule round64_eval [where e = "- 1" and n = 7205759403792794]) (simp_all add: round64_arith)
  define t1 where "t1 = (3602879701896397 / 2 ^ 51 :: real)"
  have ht1: "round64 (r1 + r2) = Finite t1"
    unfolding r1_def r2_def t1_def
    by (rule round64_eval [where e = "0" and n = 7205759403792794]) (simp_all add: round64_arith)
  have tt: "total [Finite r1, Finite r2] = Finite t1"
    by (simp add: total_def ht0 ht1)
  define av where "av = (3602879701896397 / 2 ^ 52 :: real)"
  have hav: "round64 (t1 / 2) = Finite av"
    unfolding t1_def av_def
    by (rule round64_eval [where e = "- 1" and n = 7205759403792794]) (simp_all add: round64_arith)
  have avg: "average [Finite r1, Finite r2] = Finite av"
    by (simp add: average_def tt hav)
  define qt where "qt = (75 :: real)"
  have av0: "av \<noteq> 0"
    unfolding av_def by simp
  have hq: "round64 (60 / av) = Finite qt"
    unfolding av_def qt_def
    by (rule round64_eval [where e = "6" and n = 5277655813324800]) (simp_all add: round64_arith)
  have fl: "\<lfloor>qt + 1 / 2\<rfloor> = 75"
    unfolding qt_def by simp
  have b: "spec_bpm ?w = Finite 75"
    by (simp only: spec_bpm_def en rr sv avg) (simp add: av0 hq fl)
  have s0: "surviving (rr_intervals (qrs_entries ?w)) \<noteq> []"
    by (simp only: en rr sv) simp
  have c: "calculateStableBPM ?w = Inr 75"
    by (simp only: calculateStableBPM_char [OF nn] length_qrs_entries lq s0 b)
      (simp add: in_range_def int_of_def)
  show ?thesis
    by (intro conjI lq s0 b c)
qed

lemmas estimate_mixed_record_count = estimate_mixed_record [THEN conjunct1]

lemmas estimate_mixed_record_surviving = estimate_mixed_record [THEN conjunct2, THEN conjunct1]

lemmas estimate_mixed_record_bpm = estimate_mixed_record [THEN conjunct2, THEN conjunct2, THEN conjunct1]

lemmas estimate_mixed_record_result = estimate_mixed_record [THEN conjunct2, THEN conjunct2, THEN conjunct2]

lemma exact_mixed_record:
  "exact_surviving (exact_rr_intervals (exact_entries [phase_event ''PQ'' 0.5 0.1, qrs_event 0 0.1, qrs_event 0.8 0.1, qrs_event 1.6 0.1, phase_event ''ST'' 1.7 0.3, qrs_event 4 0.1])) \<noteq> []
   \<and> exact_bpm [phase_event ''PQ'' 0.5 0.1, qrs_event 0 0.1, qrs_event 0.8 0.1, qrs_event 1.6 0.1, phase_event ''ST'' 1.7 0.3, qrs_event 4 0.1] = 75"
proof -
  let ?w = "[phase_event ''PQ'' 0.5 0.1, qrs_event 0 0.1, qrs_event 0.8 0.1, qrs_event 1.6 0.1, phase_event ''ST'' 1.7 0.3, qrs_event 4 0.1]"
  define e0 where "e0 = (0 :: real)"
  have l0: "round64 0 = Finite e0"
    by (simp add: round64_def e0_def)
  define e1 where "e1 = (3602879701896397 / 2 ^ 52 :: real)"
  have l1: "round64 0.8 = Finite e1"
    unfolding e1_def
    by (rule round64_eval [where e = "- 1" and n = 7205759403792794]) (simp_all add: round64_arith)
  define e2 where "e2 = (3602879701896397 / 2 ^ 51 :: real)"
  have l2: "round64 1.6 = Finite e2"
    unfolding e2_def
    by (rule round64_eval [where e = "0" and n = 7205759403792794]) (simp_all add: round64_arith)
  define e3 where "e3 = (4 :: real)"
  have l3: "round64 4 = Finite e3"
    unfolding e3_def
    by (rule round64_eval [where e = "2" and n = 4503599627370496]) (simp_all add: round64_arith)
  have q: "filter qualifies ?w = [qrs_event 0 0.1, qrs_event 0.8 0.1, qrs_event 1.6 0.1, qrs_event 4 0.1]"
    by (simp add: qualifies_qrs_event qualifies_phase_event)
  have en0: "exact_entries ?w = [real_of (round64 0), real_of (round64 0.8), real_of (round64 1.6), real_of (round64 4)]"
    by (simp only: exact_entries_def q list.map entry_of_qrs_event)
  have en: "exact_entries ?w = [e0, e1, e2, e3]"
    by (simp only: en0 l0 l1 l2 l3 real_of.simps)
  have s: "exact_surviving (exact_rr_intervals (exact_entries ?w)) \<noteq> []"
    unfolding en by (simp add: exact_rr_intervals_def exact_surviving_def upt_conv_Cons e0_def e1_def e2_def e3_def)
  have b: "exact_bpm ?w = 75"
    unfolding exact_bpm_def en
    by (simp add: exact_rr_intervals_def exact_surviving_def exact_average_def round_half_away_def upt_conv_Cons e0_def e1_def e2_def e3_def)
  show ?thesis
    by (intro conjI s b)
qed

lemmas exact_mixed_record_surviving = exact_mixed_record [THEN conjunct1]

lemmas exact_mixed_record_bpm = exact_mixed_record [THEN conjunct2]

lemma estimate_fast_pair:
  "length (filter qualifies [qrs_event 0 0.1, qrs_event 0.31 0.1]) = 2
   \<and> surviving (rr_intervals (qrs_entries [qrs_event 0 0.1, qrs_event 0.31 0.1])) \<noteq> []
   \<and> spec_bpm [qrs_event 0 0.1, qrs_event 0.31 0.1] = Finite 194
   \<and> calculateStableBPM [qrs_event 0 0.1, qrs_event 0.31 0.1] = Inl (OutOfRange (Finite 194))"
proof -
  let ?w = "[qrs_event 0 0.1, qrs_event 0.31 0.1]"
  define e0 where "e0 = (0 :: real)"
  have l0: "round64 0 = Finite e0"
    by (simp add: round64_def e0_def)
  define e1 where "e1 = (5584463537939415 / 2 ^ 54 :: real)"
  have l1: "round64 0.31 = Finite e1"
    unfolding e1_def
    by (rule round64_eval [where e = "- 2" and n = 5584463537939415]) (simp_all add: round64_arith)
  have nn: "\<forall>v \<in> set ?w. \<not> nullish v"
    by (simp add: qrs_event_def phase_event_def)
  have q: "filter qualifies ?w = [qrs_event 0 0.1, qrs_event 0.31 0.1]"
    by (simp add: qualifies_qrs_event qualifies_phase_event)
  have en0: "qrs_entries ?w = [round64 0, round64 0.31]"
    by (simp only: qrs_entries_def q list.map entry_of_qrs_event)
  have en: "qrs_entries ?w = [Finite e0, Finite e1]"
    by (simp only: en0 l0 l1)
  define r1 where "r1 = (5584463537939415 / 2 ^ 54 :: real)"
  have hr1: "round64 (e1 - e0) = Finite r1"
    unfolding e1_def e0_def r1_def
    by (rule round64_eval [where e = "- 2" and n = 5584463537939415]) (simp_all add: round64_arith)
  have rr: "rr_intervals [Finite e0, Finite e1] = [Finite r1]"
    by (simp add: rr_intervals_def upt_conv_Cons hr1)
  have p1: "plausible (Finite r1)"
    unfolding r1_def by (simp add: plausible_Finite)
  have sv: "surviving [Finite r1] = [Finite r1]"
    by (simp add: surviving_def p1)
  have lq: "length (filter qualifies ?w) = 2"
    by (simp only: q list.size)
  have ht0: "round64 r1 = Finite r1"
    unfolding r1_def
    by (rule round64_eval [where e = "- 2" and n = 5584463537939415]) (simp_all add: round64_arith)
  have tt: "total [Finite r1] = Finite r1"
    by (simp add: total_def ht0)
  have avg: "average [Finite r1] = Finite r1"
    by (simp add: average_def tt ht0)
  define qt where "qt = (3404939234403097 / 2 ^ 44 :: real)"
  have av0: "r1 \<noteq> 0"
    unfolding r1_def by simp
  have hq: "round64 (60 / r1) = Finite qt"
    unfolding r1_def qt_def
    by (rule round64_eval [where e = "7" and n = 6809878468806194]) (simp_all add: round64_arith)
  have fl: "\<lfloor>qt + 1 / 2\<rfloor> = 194"
    unfolding qt_def by simp
  have b: "spec_bpm ?w = Finite 194"
    by (simp only: spec_bpm_def en rr sv avg) (simp add: av0 hq fl)
  have s0: "surviving (rr_intervals (qrs_entries ?w)) \<noteq> []"
    by (simp only: en rr sv) simp
  have c: "calculateStableBPM ?w = Inl (OutOfRange (Finite 194))"
    by (simp only: calculateStableBPM_char [OF nn] length_qrs_entries lq s0 b)
      (simp add: in_range_def int_of_def)
  show ?thesis
    by (intro conjI lq s0 b c)
qed

lemmas estimate_fast_pair_count = estimate_fast_pair [THEN conjunct1]

lemmas estimate_fast_pair_surviving = estimate_fast_pair [THEN conjunct2, THEN conjunct1]

lemmas estimate_fast_pair_bpm = estimate_fast_pair [THEN conjunct2, THEN conjunct2, THEN conjunct1]

lemmas estimate_fast_pair_result = estimate_fast_pair [THEN conjunct2, THEN conjunct2, THEN conjunct2]

lemma exact_fast_pair:
  "exact_surviving (exact_rr_intervals (exact_entries [qrs_event 0 0.1, qrs_event 0.31 0.1])) \<noteq> []
   \<and> exact_bpm [qrs_event 0 0.1, qrs_event 0.31 0.1] = 194"
proof -
  let ?w = "[qrs_event 0 0.1, qrs_event 0.31 0.1]"
  define e0 where "e0 = (0 :: real)"
  have l0: "round64 0 = Finite e0"
    by (simp add: round64_def e0_def)
  define e1 where "e1 = (5584463537939415 / 2 ^ 54 :: real)"
  have l1: "round64 0.31 = Finite e1"
    unfolding e1_def
    by (rule round64_eval [where e = "- 2" and n = 5584463537939415]) (simp_all add: round64_arith)
  have q: "filter qualifies ?w = [qrs_event 0 0.1, qrs_event 0.31 0.1]"
    by (simp add: qualifies_qrs_event qualifies_phase_event)
  have en0: "exact_entries ?w = [real_of (round64 0), real_of (round64 0.31)]"
    by (simp only: exact_entries_def q list.map entry_of_qrs_event)
  have en: "exact_entries ?w = [e0, e1]"
    by (simp only: en0 l0 l1 real_of.simps)
  have s: "exact_surviving (exact_rr_intervals (exact_entries ?w)) \<noteq> []"
    unfolding en by (simp add: exact_rr_intervals_def exact_surviving_def upt_conv_Cons e0_def e1_def)
  have b: "exact_bpm ?w = 194"
    unfolding exact_bpm_def en
    by (simp add: exact_rr_intervals_def exact_surviving_def exact_average_def round_half_away_def upt_conv_Cons e0_def e1_def)
  show ?thesis
    by (intro conjI s b)
qed

lemmas exact_fast_pair_surviving = exact_fast_pair [THEN conjunct1]

lemmas exact_fast_pair_bpm = exact_fast_pair [THEN conjunct2]

lemma estimate_edge_pair:
  "length (filter qualifies [qrs_event 0.00000000000000003 0.1, qrs_event 0.30000000000000004 0.1]) = 2
   \<and> surviving (rr_intervals (qrs_entries [qrs_event 0.00000000000000003 0.1, qrs_event 0.30000000000000004 0.1])) = []
   \<and> calculateStableBPM [qrs_event 0.00000000000000003 0.1, qrs_event 0.30000000000000004 0.1] = Inl NoValidIntervals"
proof -
  let ?w = "[qrs_event 0.00000000000000003 0.1, qrs_event 0.30000000000000004 0.1]"
  define e0 where "e0 = (4867778304876401 / 2 ^ 107 :: real)"
  have l0: "round64 0.00000000000000003 = Finite e0"
    unfolding e0_def
    by (rule round64_eval [where e = "- 55" and n = 4867778304876401]) (simp_all add: round64_arith)
  define e1 where "e1 = (1351079888211149 / 2 ^ 52 :: real)"
  have l1: "round64 0.30000000000000004 = Finite e1"
    unfolding e1_def
    by (rule round64_eval [where e = "- 2" and n = 5404319552844596]) (simp_all add: round64_arith)
  have nn: "\<forall>v \<in> set ?w. \<not> nullish v"
    by (simp add: qrs_event_def phase_event_def)
  have q: "filter qualifies ?w = [qrs_event 0.00000000000000003 0.1, qrs_event 0.30000000000000004 0.1]"
    by (simp add: qualifies_qrs_event qualifies_phase_event)
  have en0: "qrs_entries ?w = [round64 0.00000000000000003, round64 0.30000000000000004]"
    by (simp only: qrs_entries_def q list.map entry_of_qrs_event)
  have en: "qrs_entries ?w = [Finite e0, Finite e1]"
    by (simp only: en0 l0 l1)
  define r1 where "r1 = (5404319552844595 / 2 ^ 54 :: real)"
  have hr1: "round64 (e1 - e0) = Finite r1"
    unfolding e1_def e0_def r1_def
    by (rule round64_eval [where e = "- 2" and n = 5404319552844595]) (simp_all add: round64_arith)
  have rr: "rr_intervals [Finite e0, Finite e1] = [Finite r1]"
    by (simp add: rr_intervals_def upt_conv_Cons hr1)
  have p1: "\<not> plausible (Finite r1)"
    unfolding r1_def by (simp add: plausible_Finite)
  have sv: "surviving [Finite r1] = []"
    by (simp add: surviving_def p1)
  have lq: "length (filter qualifies ?w) = 2"
    by (simp only: q list.size)
  have s0: "surviving (rr_intervals (qrs_entries ?w)) = []"
    by (simp only: en rr sv)
  have c: "calculateStableBPM ?w = Inl NoValidIntervals"
    by (simp only: calculateStableBPM_char [OF nn] length_qrs_entries lq s0) simp
  show ?thesis
    by (intro conjI lq s0 c)
qed

lemmas estimate_edge_pair_count = estimate_edge_pair [THEN conjunct1]

lemmas estimate_edge_pair_surviving = estimate_edge_pair [THEN conjunct2, THEN conjunct1]

lemmas estimate_edge_pair_result = estimate_edge_pair [THEN conjunct2, THEN conjunct2]

lemma exact_edge_pair:
  "exact_surviving (exact_rr_intervals (exact_entries [qrs_event 0.00000000000000003 0.1, qrs_event 0.30000000000000004 0.1])) \<noteq> []
   \<and> exact_bpm [qrs_event 0.00000000000000003 0.1, qrs_event 0.30000000000000004 0.1] = 200"
proof -
  let ?w = "[qrs_event 0.00000000000000003 0.1, qrs_event 0.30000000000000004 0.1]"
  define e0 where "e0 = (4867778304876401 / 2 ^ 107 :: real)"
  have l0: "round64 0.00000000000000003 = Finite e0"
    unfolding e0_def
    by (rule round64_eval [where e = "- 55" and n = 4867778304876401]) (simp_all add: round64_arith)
  define e1 where "e1 = (1351079888211149 / 2 ^ 52 :: real)"
  have l1: "round64 0.30000000000000004 = Finite e1"
    unfolding e1_def
    by (rule round64_eval [where e = "- 2" and n = 5404319552844596]) (simp_all add: round64_arith)
  have q: "filter qualifies ?w = [qrs_event 0.00000000000000003 0.1, qrs_event 0.30000000000000004 0.1]"
    by (simp add: qualifies_qrs_event qualifies_phase_event)
  have en0: "exact_entries ?w = [real_of (round64 0.00000000000000003), real_of (round64 0.30000000000000004)]"
    by (simp only: exact_entries_def q list.map entry_of_qrs_event)
  have en: "exact_entries ?w = [e0, e1]"
    by (simp only: en0 l0 l1 real_of.simps)
  have s: "exact_surviving (exact_rr_intervals (exact_entries ?w)) \<noteq> []"
    unfolding en by (simp add: exact_rr_intervals_def exact_surviving_def upt_conv_Cons e0_def e1_def)
  have b: "exact_bpm ?w = 200"
    unfolding exact_bpm_def en
    by (simp add: exact_rr_intervals_def exact_surviving_def exact_average_def round_half_away_def upt_conv_Cons e0_def e1_def)
  show ?thesis
    by (intro conjI s b)
qed

lemmas exact_edge_pair_surviving = exact_edge_pair [THEN conjunct1]

lemmas exact_edge_pair_bpm = exact_edge_pair [THEN conjunct2]

lemma estimate_second_pair:
  "length (filter qualifies [qrs_event 1 0.1, phase_event ''ST'' 1.1 0.3, qrs_event 2 0.1]) = 2
   \<and> surviving (rr_intervals (qrs_entries [qrs_event 1 0.1, phase_event ''ST'' 1.1 0.3, qrs_event 2 0.1])) \<noteq> []
   \<and> spec_bpm [qrs_event 1 0.1, phase_event ''ST'' 1.1 0.3, qrs_event 2 0.1] = Finite 60
   \<and> calculateStableBPM [qrs_event 1 0.1, phase_event ''ST'' 1.1 0.3, qrs_event 2 0.1] = Inr 60"
proof -
  let ?w = "[qrs_event 1 0.1, phase_event ''ST'' 1.1 0.3, qrs_event 2 0.1]"
  define e0 where "e0 = (1 :: real)"
  have l0: "round64 1 = Finite e0"
    unfolding e0_def
    by (rule round64_eval [where e = "0" and n = 4503599627370496]) (simp_all add: round64_arith)
  define e1 where "e1 = (2 :: real)"
  have l1: "round64 2 = Finite e1"
    unfolding e1_def
    by (rule round64_eval [where e = "1" and n = 4503599627370496]) (simp_all add: round64_arith)
  have nn: "\<forall>v \<in> set ?w. \<not> nullish v"
    by (simp add: qrs_event_def phase_event_def)
  have q: "filter qualifies ?w = [qrs_event 1 0.1, qrs_event 2 0.1]"
    by (simp add: qualifies_qrs_event qualifies_phase_event)
  have en0: "qrs_entries ?w = [round64 1, round64 2]"
    by (simp only: qrs_entries_def q list.map entry_of_qrs_event)
  have en: "qrs_entries ?w = [Finite e0, Finite e1]"
    by (simp only: en0 l0 l1)
  define r1 where "r1 = (1 :: real)"
  have hr1: "round64 (e1 - e0) = Finite r1"
    unfolding e1_def e0_def r1_def
    by (rule round64_eval [where e = "0" and n = 4503599627370496]) (simp_all add: round64_arith)
  have rr: "rr_intervals [Finite e0, Finite e1] = [Finite r1]"
    by (simp add: rr_intervals_def upt_conv_Cons hr1)
  have p1: "plausible (Finite r1)"
    unfolding r1_def by (simp add: plausible_Finite)
  have sv: "surviving [Finite r1] = [Finite r1]"
    by (simp add: surviving_def p1)
  have lq: "length (filter qualifies ?w) = 2"
    by (simp only: q list.size)
  have ht0: "round64 r1 = Finite r1"
    unfolding r1_def
    by (rule round64_eval [where e = "0" and n = 4503599627370496]) (simp_all add: round64_arith)
  have tt: "total [Finite r1] = Finite r1"
    by (simp add: total_def ht0)
  have avg: "average [Finite r1] = Finite r1"
    by (simp add: average_def tt ht0)
  define qt where "qt = (60 :: real)"
  have av0: "r1 \<noteq> 0"
    unfolding r1_def by simp
  have hq: "round64 (60 / r1) = Finite qt"
    unfolding r1_def qt_def
    by (rule round64_eval [where e = "5" and n = 8444249301319680]) (simp_all add: round64_arith)
  have fl: "\<lfloor>qt + 1 / 2\<rfloor> = 60"
    unfolding qt_def by simp
  have b: "spec_bpm ?w = Finite 60"
    by (simp only: spec_bpm_def en rr sv avg) (simp add: av0 hq fl)
  have s0: "surviving (rr_intervals (qrs_entries ?w)) \<noteq> []"
    by (simp only: en rr sv) simp
  have c: "calculateStableBPM ?w = Inr 60"
    by (simp only: calculateStableBPM_char [OF nn] length_qrs_entries lq s0 b)
      (simp add: in_range_def int_of_def)
  show ?thesis
    by (intro conjI lq s0 b c)
qed

lemmas estimate_second_pair_count = estimate_second_pair [THEN conjunct1]

lemmas estimate_second_pair_surviving = estimate_second_pair [THEN conjunct2, THEN conjunct1]

lemmas estimate_second_pair_bpm = estimate_second_pair [THEN conjunct2, THEN conjunct2, THEN conjunct1]

lemmas estimate_second_pair_result = estimate_second_pair [THEN conjunct2, THEN conjunct2, THEN conjunct2]

lemma exact_second_pair:
  "exact_surviving (exact_rr_intervals (exact_entries [qrs_event 1 0.1, phase_event ''ST'' 1.1 0.3, qrs_event 2 0.1])) \<noteq> []
   \<and> exact_bpm [qrs_event 1 0.1, phase_event ''ST'' 1.1 0.3, qrs_event 2 0.1] = 60"
proof -
  let ?w = "[qrs_event 1 0.1, phase_event ''ST'' 1.1 0.3, qrs_event 2 0.1]"
  define e0 where "e0 = (1 :: real)"
  have l0: "round64 1 = Finite e0"
    unfolding e0_def
    by (rule round64_eval [where e = "0" and n = 4503599627370496]) (simp_all add: round64_arith)
  define e1 where "e1 = (2 :: real)"
  have l1: "round64 2 = Finite e1"
    unfolding e1_def
    by (rule round64_eval [where e = "1" and n = 4503599627370496]) (simp_all add: round64_arith)
  have q: "filter qualifies ?w = [qrs_event 1 0.1, qrs_event 2 0.1]"
    by (simp add: qualifies_qrs_event qualifies_phase_event)
  have en0: "exact_entries ?w = [real_of (round64 1), real_of (round64 2)]"
    by (simp only: exact_entries_def q list.map entry_of_qrs_event)
  have en: "exact_entries ?w = [e0, e1]"
    by (simp only: en0 l0 l1 real_of.simps)
  have s: "exact_surviving (exact_rr_intervals (exact_entries ?w)) \<noteq> []"
    unfolding en by (simp add: exact_rr_intervals_def exact_surviving_def upt_conv_Cons e0_def e1_def)
  have b: "exact_bpm ?w = 60"
    unfolding exact_bpm_def en
    by (simp add: exact_rr_intervals_def exact_surviving_def exact_average_def round_half_away_def upt_conv_Cons e0_def e1_def)
  show ?thesis
    by (intro conjI s b)
qed

lemmas exact_second_pair_surviving = exact_second_pair [THEN conjunct1]

lemmas exact_second_pair_bpm = exact_second_pair [THEN conjunct2]

lemma estimate_slow_pair:
  "length (filter qualifies [qrs_event 0 0.08, qrs_event 1.9 0.08]) = 2
   \<and> surviving (rr_intervals (qrs_entries [qrs_event 0 0.08, qrs_event 1.9 0.08])) \<noteq> []
   \<and> spec_bpm [qrs_event 0 0.08, qrs_event 1.9 0.08] = Finite 32
   \<and> calculateStableBPM [qrs_event 0 0.08, qrs_event 1.9 0.08] = Inl (OutOfRange (Finite 32))"
proof -
  let ?w = "[qrs_event 0 0.08, qrs_event 1.9 0.08]"
  define e0 where "e0 = (0 :: real)"
  have l0: "round64 0 = Finite e0"
    by (simp add: round64_def e0_def)
  define e1 where "e1 = (4278419646001971 / 2 ^ 51 :: real)"
  have l1: "round64 1.9 = Finite e1"
    unfolding e1_def
    by (rule round64_eval [where e = "0" and n = 8556839292003942]) (simp_all add: round64_arith)
  have nn: "\<forall>v \<in> set ?w. \<not> nullish v"
    by (simp add: qrs_event_def phase_event_def)
  have q: "filter qualifies ?w = [qrs_event 0 0.08, qrs_event 1.9 0.08]"
    by (simp add: qualifies_qrs_event qualifies_phase_event)
  have en0: "qrs_entries ?w = [round64 0, round64 1.9]"
    by (simp only: qrs_entries_def q list.map entry_of_qrs_event)
  have en: "qrs_entries ?w = [Finite e0, Finite e1]"
    by (simp only: en0 l0 l1)
  define r1 where "r1 = (4278419646001971 / 2 ^ 51 :: real)"
  have hr1: "round64 (e1 - e0) = Finite r1"
    unfolding e1_def e0_def r1_def
    by (rule round64_eval [where e = "0" and n = 8556839292003942]) (simp_all add: round64_arith)
  have rr: "rr_intervals [Finite e0, Finite e1] = [Finite r1]"
    by (simp add: rr_intervals_def upt_conv_Cons hr1)
  have p1: "plausible (Finite r1)"
    unfolding r1_def by (simp add: plausible_Finite)
  have sv: "surviving [Finite r1] = [Finite r1]"
    by (simp add: surviving_def p1)
  have lq: "length (filter qualifies ?w) = 2"
    by (simp only: q list.size)
  have ht0: "round64 r1 = Finite r1"
    unfolding r1_def
    by (rule round64_eval [where e = "0" and n = 8556839292003942]) (simp_all add: round64_arith)
  have tt: "total [Finite r1] = Finite r1"
    by (simp add: total_def ht0)
  have avg: "average [Finite r1] = Finite r1"
    by (simp add: average_def tt ht0)
  define qt where "qt = (2222170868768337 / 2 ^ 46 :: real)"
  have av0: "r1 \<noteq> 0"
    unfolding r1_def by simp
  have hq: "round64 (60 / r1) = Finite qt"
    unfolding r1_def qt_def
    by (rule round64_eval [where e = "4" and n = 8888683475073348]) (simp_all add: round64_arith)
  have fl: "\<lfloor>qt + 1 / 2\<rfloor> = 32"
    unfolding qt_def by simp
  have b: "spec_bpm ?w = Finite 32"
    by (simp only: spec_bpm_def en rr sv avg) (simp add: av0 hq fl)
  have s0: "surviving (rr_intervals (qrs_entries ?w)) \<noteq> []"
    by (simp only: en rr sv) simp
  have c: "calculateStableBPM ?w = Inl (OutOfRange (Finite 32))"
    by (simp only: calculateStableBPM_char [OF nn] length_qrs_entries lq s0 b)
      (simp add: in_range_def int_of_def)
  show ?thesis
    by (intro conjI lq s0 b c)
qed

lemmas estimate_slow_pair_count = estimate_slow_pair [THEN conjunct1]

lemmas estimate_slow_pair_surviving = estimate_slow_pair [THEN conjunct2, THEN conjunct1]

lemmas estimate_slow_pair_bpm = estimate_slow_pair [THEN conjunct2, THEN conjunct2, THEN conjunct1]

lemmas estimate_slow_pair_result = estimate_slow_pair [THEN conjunct2, THEN conjunct2, THEN conjunct2]

lemma exact_slow_pair:
  "exact_surviving (exact_rr_intervals (exact_entries [qrs_event 0 0.08, qrs_event 1.9 0.08])) \<noteq> []
   \<and> exact_bpm [qrs_event 0 0.08, qrs_event 1.9 0.08] = 32"
proof -
  let ?w = "[qrs_event 0 0.08, qrs_event 1.9 0.08]"
  define e0 where "e0 = (0 :: real)"
  have l0: "round64 0 = Finite e0"
    by (simp add: round64_def e0_def)
  define e1 where "e1 = (4278419646001971 / 2 ^ 51 :: real)"
  have l1: "round64 1.9 = Finite e1"
    unfolding e1_def
    by (rule round64_eval [where e = "0" and n = 8556839292003942]) (simp_all add: round64_arith)
  have q: "filter qualifies ?w = [qrs_event 0 0.08, qrs_event 1.9 0.08]"
    by (simp add: qualifies_qrs_event qualifies_phase_event)
  have en0: "exact_entries ?w = [real_of (round64 0), real_of (round64 1.9)]"
    by (simp only: exact_entries_def q list.map entry_of_qrs_event)
  have en: "exact_entries ?w = [e0, e1]"
    by (simp only: en0 l0 l1 real_of.simps)
  have s: "exact_surviving (exact_rr_intervals (exact_entries ?w)) \<noteq> []"
    unfolding en by (simp add: exact_rr_intervals_def exact_surviving_def upt_conv_Cons e0_def e1_def)
  have b: "exact_bpm ?w = 32"
    unfolding exact_bpm_def en
    by (simp add: exact_rr_intervals_def exact_surviving_def exact_average_def round_half_away_def upt_conv_Cons e0_def e1_def)
  show ?thesis
    by (intro conjI s b)
qed

lemmas exact_slow_pair_surviving = exact_slow_pair [THEN conjunct1]

lemmas exact_slow_pair_bpm = exact_slow_pair [THEN conjunct2]

lemma estimate_tie_pair:
  "length (filter qualifies [qrs_event 0 0.1, qrs_event 1.518987341772152 0.1]) = 2
   \<and> surviving (rr_intervals (qrs_entries [qrs_event 0 0.1, qrs_event 1.518987341772152 0.1])) \<noteq> []
   \<and> spec_bpm [qrs_event 0 0.1, qrs_event 1.518987341772152 0.1] = Finite 40
   \<and> calculateStableBPM [qrs_event 0 0.1, qrs_event 1.518987341772152 0.1] = Inr 40"
proof -
  let ?w = "[qrs_event 0 0.1, qrs_event 1.518987341772152 0.1]"
  define e0 where "e0 = (0 :: real)"
  have l0: "round64 0 = Finite e0"
    by (simp add: round64_def e0_def)
  define e1 where "e1 = (1710227706596391 / 2 ^ 50 :: real)"
  have l1: "round64 1.518987341772152 = Finite e1"
    unfolding e1_def
    by (rule round64_eval [where e = "0" and n = 6840910826385564]) (simp_all add: round64_arith)
  have nn: "\<forall>v \<in> set ?w. \<not> nullish v"
    by (simp add: qrs_event_def phase_event_def)
  have q: "filter qualifies ?w = [qrs_event 0 0.1, qrs_event 1.518987341772152 0.1]"
    by (simp add: qualifies_qrs_event qualifies_phase_event)
  have en0: "qrs_entries ?w = [round64 0, round64 1.518987341772152]"
    by (simp only: qrs_entries_def q list.map entry_of_qrs_event)
  have en: "qrs_entries ?w = [Finite e0, Finite e1]"
    by (simp only: en0 l0 l1)
  define r1 where "r1 = (1710227706596391 / 2 ^ 50 :: real)"
  have hr1: "round64 (e1 - e0) = Finite r1"
    unfolding e1_def e0_def r1_def
    by (rule round64_eval [where e = "0" and n = 6840910826385564]) (simp_all add: round64_arith)
  have rr: "rr_intervals [Finite e0, Finite e1] = [Finite r1]"
    by (simp add: rr_intervals_def upt_conv_Cons hr1)
  have p1: "plausible (Finite r1)"
    unfolding r1_def by (simp add: plausible_Finite)
  have sv: "surviving [Finite r1] = [Finite r1]"
    by (simp add: surviving_def p1)
  have lq: "length (filter qualifies ?w) = 2"
    by (simp only: q list.size)
  have ht0: "round64 r1 = Finite r1"
    unfolding r1_def
    by (rule round64_eval [where e = "0" and n = 6840910826385564]) (simp_all add: round64_arith)
  have tt: "total [Finite r1] = Finite r1"
    by (simp add: total_def ht0)
  have avg: "average [Finite r1] = Finite r1"
    by (simp add: average_def tt ht0)
  define qt where "qt = (79 / 2 ^ 1 :: real)"
  have av0: "r1 \<noteq> 0"
    unfolding r1_def by simp
  have hq: "round64 (60 / r1) = Finite qt"
    unfolding r1_def qt_def
    by (rule round64_eval [where e = "5" and n = 5559130790035456]) (simp_all add: round64_arith)
  have fl: "\<lfloor>qt + 1 / 2\<rfloor> = 40"
    unfolding qt_def by simp
  have b: "spec_bpm ?w = Finite 40"
    by (simp only: spec_bpm_def en rr sv avg) (simp add: av0 hq fl)
  have s0: "surviving (rr_intervals (qrs_entries ?w)) \<noteq> []"
    by (simp only: en rr sv) simp
  have c: "calculateStableBPM ?w = Inr 40"
    by (simp only: calculateStableBPM_char [OF nn] length_qrs_entries lq s0 b)
      (simp add: in_range_def int_of_def)
  show ?thesis
    by (intro conjI lq s0 b c)
qed

lemmas estimate_tie_pair_count = estimate_tie_pair [THEN conjunct1]

lemmas estimate_tie_pair_surviving = estimate_tie_pair [THEN conjunct2, THEN conjunct1]

lemmas estimate_tie_pair_bpm = estimate_tie_pair [THEN conjunct2, THEN conjunct2, THEN conjunct1]

lemmas estimate_tie_pair_result = estimate_tie_pair [THEN conjunct2, THEN conjunct2, THEN conjunct2]

lemma exact_tie_pair:
  "exact_surviving (exact_rr_intervals (exact_entries [qrs_event 0 0.1, qrs_event 1.518987341772152 0.1])) \<noteq> []
   \<and> exact_bpm [qrs_event 0 0.1, qrs_event 1.518987341772152 0.1] = 39"
proof -
  let ?w = "[qrs_event 0 0.1, qrs_event 1.518987341772152 0.1]"
  define e0 where "e0 = (0 :: real)"
  have l0: "round64 0 = Finite e0"
    by (simp add: round64_def e0_def)
  define e1 where "e1 = (1710227706596391 / 2 ^ 50 :: real)"
  have l1: "round64 1.518987341772152 = Finite e1"
    unfolding e1_def
    by (rule round64_eval [where e = "0" and n = 6840910826385564]) (simp_all add: round64_arith)
  have q: "filter qualifies ?w = [qrs_event 0 0.1, qrs_event 1.518987341772152 0.1]"
    by (simp add: qualifies_qrs_event qualifies_phase_event)
  have en0: "exact_entries ?w = [real_of (round64 0), real_of (round64 1.518987341772152)]"
    by (simp only: exact_entries_def q list.map entry_of_qrs_event)
  have en: "exact_entries ?w = [e0, e1]"
    by (simp only: en0 l0 l1 real_of.simps)
  have s: "exact_surviving (exact_rr_intervals (exact_entries ?w)) \<noteq> []"
    unfolding en by (simp add: exact_rr_intervals_def exact_surviving_def upt_conv_Cons e0_def e1_def)
  have b: "exact_bpm ?w = 39"
    unfolding exact_bpm_def en
    by (simp add: exact_rr_intervals_def exact_surviving_def exact_average_def round_half_away_def upt_conv_Cons e0_def e1_def)
  show ?thesis
    by (intro conjI s b)
qed

lemmas exact_tie_pair_surviving = exact_tie_pair [THEN conjunct1]

lemmas exact_tie_pair_bpm = exact_tie_pair [THEN conjunct2]

lemma estimate_short_pair:
  "length (filter qualifies [qrs_event 0 0.1, qrs_event 0.1 0.1]) = 2
   \<and> surviving (rr_intervals (qrs_entries [qrs_event 0 0.1, qrs_event 0.1 0.1])) = []
   \<and> calculateStableBPM [qrs_event 0 0.1, qrs_event 0.1 0.1] = Inl NoValidIntervals"
proof -
  let ?w = "[qrs_event 0 0.1, qrs_event 0.1 0.1]"
  define e0 where "e0 = (0 :: real)"
  have l0: "round64 0 = Finite e0"
    by (simp add: round64_def e0_def)
  define e1 where "e1 = (3602879701896397 / 2 ^ 55 :: real)"
  have l1: "round64 0.1 = Finite e1"
    unfolding e1_def
    by (rule round64_eval [where e = "- 4" and n = 7205759403792794]) (simp_all add: round64_arith)
  have nn: "\<forall>v \<in> set ?w. \<not> nullish v"
    by (simp add: qrs_event_def phase_event_def)
  have q: "filter qualifies ?w = [qrs_event 0 0.1, qrs_event 0.1 0.1]"
    by (simp add: qualifies_qrs_event qualifies_phase_event)
  have en0: "qrs_entries ?w = [round64 0, round64 0.1]"
    by (simp only: qrs_entries_def q list.map entry_of_qrs_event)
  have en: "qrs_entries ?w = [Finite e0, Finite e1]"
    by (simp only: en0 l0 l1)
  define r1 where "r1 = (3602879701896397 / 2 ^ 55 :: real)"
  have hr1: "round64 (e1 - e0) = Finite r1"
    unfolding e1_def e0_def r1_def
    by (rule round64_eval [where e = "- 4" and n = 7205759403792794]) (simp_all add: round64_arith)
  have rr: "rr_intervals [Finite e0, Finite e1] = [Finite r1]"
    by (simp add: rr_intervals_def upt_conv_Cons hr1)
  have p1: "\<not> plausible (Finite r1)"
    unfolding r1_def by (simp add: plausible_Finite)
  have sv: "surviving [Finite r1] = []"
    by (simp add: surviving_def p1)
  have lq: "length (filter qualifies ?w) = 2"
    by (simp only: q list.size)
  have s0: "surviving (rr_intervals (qrs_entries ?w)) = []"
    by (simp only: en rr sv)
  have c: "calculateStableBPM ?w = Inl NoValidIntervals"
    by (simp only: calculateStableBPM_char [OF nn] length_qrs_entries lq s0) simp
  show ?thesis
    by (intro conjI lq s0 c)
qed

lemmas estimate_short_pair_count = estimate_short_pair [THEN conjunct1]

lemmas estimate_short_pair_surviving = estimate_short_pair [THEN conjunct2, THEN conjunct1]

lemmas estimate_short_pair_result = estimate_short_pair [THEN conjunct2, THEN conjunct2]

lemma exact_short_pair:
  "exact_surviving (exact_rr_intervals (exact_entries [qrs_event 0 0.1, qrs_event 0.1 0.1])) = []"
proof -
  let ?w = "[qrs_event 0 0.1, qrs_event 0.1 0.1]"
  define e0 where "e0 = (0 :: real)"
  have l0: "round64 0 = Finite e0"
    by (simp add: round64_def e0_def)
  define e1 where "e1 = (3602879701896397 / 2 ^ 55 :: real)"
  have l1: "round64 0.1 = Finite e1"
    unfolding e1_def
    by (rule round64_eval [where e = "- 4" and n = 7205759403792794]) (simp_all add: round64_arith)
  have q: "filter qualifies ?w = [qrs_event 0 0.1, qrs_event 0.1 0.1]"
    by (simp add: qualifies_qrs_event qualifies_phase_event)
  have en0: "exact_entries ?w = [real_of (round64 0), real_of (round64 0.1)]"
    by (simp only: exact_entries_def q list.map entry_of_qrs_event)
  have en: "exact_entries ?w = [e0, e1]"
    by (simp only: en0 l0 l1 real_of.simps)
  show ?thesis
    unfolding en by (simp add: exact_rr_intervals_def exact_surviving_def upt_conv_Cons e0_def e1_def)
qed

lemmas exact_short_pair_surviving = exact_short_pair

lemma estimate_plain_pair:
  "length (filter qualifies [qrs_event 0 0.1, qrs_event 0.8 0.1]) = 2
   \<and> surviving (rr_intervals (qrs_entries [qrs_event 0 0.1, qrs_event 0.8 0.1])) \<noteq> []
   \<and> spec_bpm [qrs_event 0 0.1, qrs_event 0.8 0.1] = Finite 75
   \<and> calculateStableBPM [qrs_event 0 0.1, qrs_event 0.8 0.1] = Inr 75"
proof -
  let ?w = "[qrs_event 0 0.1, qrs_event 0.8 0.1]"
  define e0 where "e0 = (0 :: real)"
  have l0: "round64 0 = Finite e0"
    by (simp add: round64_def e0_def)
  define e1 where "e1 = (3602879701896397 / 2 ^ 52 :: real)"
  have l1: "round64 0.8 = Finite e1"
    unfolding e1_def
    by (rule round64_eval [where e = "- 1" and n = 7205759403792794]) (simp_all add: round64_arith)
  have nn: "\<forall>v \<in> set ?w. \<not> nullish v"
    by (simp add: qrs_event_def phase_event_def)
  have q: "filter qualifies ?w = [qrs_event 0 0.1, qrs_event 0.8 0.1]"
    by (simp add: qualifies_qrs_event qualifies_phase_event)
  have en0: "qrs_entries ?w = [round64 0, round64 0.8]"
    by (simp only: qrs_entries_def q list.map entry_of_qrs_event)
  have en: "qrs_entries ?w = [Finite e0, Finite e1]"
    by (simp only: en0 l0 l1)
  define r1 where "r1 = (3602879701896397 / 2 ^ 52 :: real)"
  have hr1: "round64 (e1 - e0) = Finite r1"
    unfolding e1_def e0_def r1_def
    by (rule round64_eval [where e = "- 1" and n = 7205759403792794]) (simp_all add: round64_arith)
  have rr: "rr_intervals [Finite e0, Finite e1] = [Finite r1]"
    by (simp add: rr_intervals_def upt_conv_Cons hr1)
  have p1: "plausible (Finite r1)"
    unfolding r1_def by (simp add: plausible_Finite)
  have sv: "surviving [Finite r1] = [Finite r1]"
    by (simp add: surviving_def p1)
  have lq: "length (filter qualifies ?w) = 2"
    by (simp only: q list.size)
  have ht0: "round64 r1 = Finite r1"
    unfolding r1_def
    by (rule round64_eval [where e = "- 1" and n = 7205759403792794]) (simp_all add: round64_arith)
  have tt: "total [Finite r1] = Finite r1"
    by (simp add: total_def ht0)
  have avg: "average [Finite r1] = Finite r1"
    by (simp add: average_def tt ht0)
  define qt where "qt = (75 :: real)"
  have av0: "r1 \<noteq> 0"
    unfolding r1_def by simp
  have hq: "round64 (60 / r1) = Finite qt"
    unfolding r1_def qt_def
    by (rule round64_eval [where e = "6" and n = 5277655813324800]) (simp_all add: round64_arith)
  have fl: "\<lfloor>qt + 1 / 2\<rfloor> = 75"
    unfolding qt_def by simp
  have b: "spec_bpm ?w = Finite 75"
    by (simp only: spec_bpm_def en rr sv avg) (simp add: av0 hq fl)
  have s0: "surviving (rr_intervals (qrs_entries ?w)) \<noteq> []"
    by (simp only: en rr sv) simp
  have c: "calculateStableBPM ?w = Inr 75"
    by (simp only: calculateStableBPM_char [OF nn] length_qrs_entries lq s0 b)
      (simp add: in_range_def int_of_def)
  show ?thesis
    by (intro conjI lq s0 b c)
qed

lemmas estimate_plain_pair_count = estimate_plain_pair [THEN conjunct1]

lemmas estimate_plain_pair_surviving = estimate_plain_pair [THEN conjunct2, THEN conjunct1]

lemmas estimate_plain_pair_bpm = estimate_plain_pair [THEN conjunct2, THEN conjunct2, THEN conjunct1]

lemmas estimate_plain_pair_result = estimate_plain_pair [THEN conjunct2, THEN conjunct2, THEN conjunct2]

lemma exact_plain_pair:
  "exact_surviving (exact_rr_intervals (exact_entries [qrs_event 0 0.1, qrs_event 0.8 0.1])) \<noteq> []
   \<and> exact_bpm [qrs_event 0 0.1, qrs_event 0.8 0.1] = 75"
proof -
  let ?w = "[qrs_event 0 0.1, qrs_event 0.8 0.1]"
  define e0 where "e0 = (0 :: real)"
  have l0: "round64 0 = Finite e0"
    by (simp add: round64_def e0_def)
  define e1 where "e1 = (3602879701896397 / 2 ^ 52 :: real)"
  have l1: "round64 0.8 = Finite e1"
    unfolding e1_def
    by (rule round64_eval [where e = "- 1" and n = 7205759403792794]) (simp_all add: round64_arith)
  have q: "filter qualifies ?w = [qrs_event 0 0.1, qrs_event 0.8 0.1]"
    by (simp add: qualifies_qrs_event qualifies_phase_event)
  have en0: "exact_entries ?w = [real_of (round64 0), real_of (round64 0.8)]"
    by (simp only: exact_entries_def q list.map entry_of_qrs_event)
  have en: "exact_entries ?w = [e0, e1]"
    by (simp only: en0 l0 l1 real_of.simps)
  have s: "exact_surviving (exact_rr_intervals (exact_entries ?w)) \<noteq> []"
    unfolding en by (simp add: exact_rr_intervals_def exact_surviving_def upt_conv_Cons e0_def e1_def)
  have b: "exact_bpm ?w = 75"
    unfolding exact_bpm_def en
    by (simp add: exact_rr_intervals_def exact_surviving_def exact_average_def round_half_away_def upt_conv_Cons e0_def e1_def)
  show ?thesis
    by (intro conjI s b)
qed

lemmas exact_plain_pair_surviving = exact_plain_pair [THEN conjunct1]

lemmas exact_plain_pair_bpm = exact_plain_pair [THEN conjunct2]


subsection \<open>The claims about the estimator\<close>

text \<open>
  Claim C1, as stated: whenever at least two records are QRS events, a successive
  difference of their entry times lies in the open range (0.3, 2.0) and the rounded
  quotient of 60 by the average of those differences lies in [40, 180], the estimator
  returns exactly that rounded quotient. In exact arithmetic it does not: for QRS events
  entering at 0.07, 0.926 and 1.99 the quotient of 60 by the exact average of the two
  differences rounds to 63, and the estimator, which rounds every difference, sum and
  quotient to a double, returns 62.
\<close>

theorem calculateStableBPM_exact_counterexample:
  "length (filter qualifies [qrs_event 0.07 0.1, qrs_event 0.926 0.1, qrs_event 1.99 0.1]) = 3
   \<and> exact_surviving (exact_rr_intervals (exact_entries
         [qrs_event 0.07 0.1, qrs_event 0.926 0.1, qrs_event 1.99 0.1])) \<noteq> []
   \<and> exact_bpm [qrs_event 0.07 0.1, qrs_event 0.926 0.1, qrs_event 1.99 0.1] = 63
   \<and> calculateStableBPM [qrs_event 0.07 0.1, qrs_event 0.926 0.1, qrs_event 1.99 0.1] = Inr 62"
  by (intro conjI estimate_three_beats_count exact_three_beats_surviving exact_three_beats_bpm
      estimate_three_beats_result)

text \<open>
  Claim C1, amended: take a sequence of interval records in which at least two records
  are labelled "QRS" with numeric entry and duration, at least one successive difference
  of the QRS entry times, rounded to a double, lies strictly between the doubles 0.3 and
  2.0, and the rate lies in [40, 180], where the rate is \<^verbatim>\<open>Math.round\<close> of the quotient of
  60 by the average of the differences in that range, every difference, every sum from
  the left, the average and the quotient rounded to a double. Then
  \<^verbatim>\<open>calculateStableBPM\<close> returns exactly that rate, the differences outside the range
  left out of the average. For QRS events entering at 0.0, 0.8, 1.6 and 2.4 it returns
  75, whatever their durations.
\<close>

theorem calculateStableBPM_rounded_average:
  assumes "\<forall>v \<in> set intervals. \<not> nullish v"
    and "2 \<le> length (filter qualifies intervals)"
    and "\<exists>rr \<in> set (rr_intervals (qrs_entries intervals)). plausible rr"
    and "in_range (spec_bpm intervals)"
  shows "(\<exists>n. calculateStableBPM intervals = Inr n \<and> spec_bpm intervals = Finite (of_int n))
         \<and> calculateStableBPM [qrs_event 0.0 d0, qrs_event 0.8 d1, qrs_event 1.6 d2, qrs_event 2.4 d3]
             = Inr 75"
proof
  from assms(3) have ne: "surviving (rr_intervals (qrs_entries intervals)) \<noteq> []"
    by (auto simp: surviving_empty_conv)
  from assms(4) have i: "spec_bpm intervals = Finite (of_int (int_of (spec_bpm intervals)))"
    by (rule in_range_spec_bpm [THEN conjunct1])
  from assms(1,2,4) ne
  have "calculateStableBPM intervals = Inr (int_of (spec_bpm intervals))"
    by (simp add: calculateStableBPM_char length_qrs_entries)
  with i show "\<exists>n. calculateStableBPM intervals = Inr n \<and> spec_bpm intervals = Finite (of_int n)"
    by blast
next
  show "calculateStableBPM [qrs_event 0.0 d0, qrs_event 0.8 d1, qrs_event 1.6 d2, qrs_event 2.4 d3]
      = Inr 75"
    by (rule estimate_four_beats_result)
qed

theorem calculateStableBPM_rounded_average_witness:
  "spec_bpm [phase_event ''PQ'' 0.5 0.1, qrs_event 0 0.1, qrs_event 0.8 0.1,
             qrs_event 1.6 0.1, phase_event ''ST'' 1.7 0.3, qrs_event 4 0.1] = Finite 75
   \<and> calculateStableBPM [phase_event ''PQ'' 0.5 0.1, qrs_event 0 0.1, qrs_event 0.8 0.1,
                          qrs_event 1.6 0.1, phase_event ''ST'' 1.7 0.3, qrs_event 4 0.1]
       = Inr 75"
proof -
  let ?w = "[phase_event ''PQ'' 0.5 0.1, qrs_event 0 0.1, qrs_event 0.8 0.1,
             qrs_event 1.6 0.1, phase_event ''ST'' 1.7 0.3, qrs_event 4 0.1]"
  have h1: "\<forall>v \<in> set ?w. \<not> nullish v"
    by (simp add: qrs_event_def phase_event_def)
  have h2: "2 \<le> length (filter qualifies ?w)"
    using estimate_mixed_record_count by simp
  have h3: "\<exists>rr \<in> set (rr_intervals (qrs_entries ?w)). plausible rr"
    using estimate_mixed_record_surviving by (simp only: surviving_empty_conv) blast
  have b: "spec_bpm ?w = Finite 75"
    by (rule estimate_mixed_record_bpm)
  have h4: "in_range (spec_bpm ?w)"
    by (simp only: b) (simp add: in_range_def)
  from calculateStableBPM_rounded_average [OF h1 h2 h3 h4]
  obtain n where n: "calculateStableBPM ?w = Inr n" "spec_bpm ?w = Finite (of_int n)"
    by blast
  from n(2) have "n = 75"
    by (simp only: b) simp
  with n(1) have "calculateStableBPM ?w = Inr 75" by simp
  with b show ?thesis by (rule conjI)
qed

text \<open>
  Claim C2, as stated: for every sequence with at least two QRS events and at least one
  RR interval in the open range (0.3, 2.0) the estimator returns an integer between 40
  and 180. It does not. Two QRS events 0.31 seconds apart give the rate 194, and the
  estimator fails with the out-of-range error. And the range is tested on the rounded
  difference: for QRS events entering at 0.00000000000000003 and 0.30000000000000004 the
  exact difference of the two doubles lies in the open range, its rounding is the double
  0.3, and the estimator fails with the no-valid-data error.
\<close>

theorem calculateStableBPM_in_range_counterexample:
  "length (filter qualifies [qrs_event 0 0.1, qrs_event 0.31 0.1]) = 2
   \<and> exact_surviving (exact_rr_intervals (exact_entries
         [qrs_event 0 0.1, qrs_event 0.31 0.1])) \<noteq> []
   \<and> surviving (rr_intervals (qrs_entries [qrs_event 0 0.1, qrs_event 0.31 0.1])) \<noteq> []
   \<and> calculateStableBPM [qrs_event 0 0.1, qrs_event 0.31 0.1] = Inl (OutOfRange (Finite 194))
   \<and> length (filter qualifies
         [qrs_event 0.00000000000000003 0.1, qrs_event 0.30000000000000004 0.1]) = 2
   \<and> exact_surviving (exact_rr_intervals (exact_entries
         [qrs_event 0.00000000000000003 0.1, qrs_event 0.30000000000000004 0.1])) \<noteq> []
   \<and> calculateStableBPM [qrs_event 0.00000000000000003 0.1, qrs_event 0.30000000000000004 0.1]
       = Inl NoValidIntervals"
  by (intro conjI estimate_fast_pair_count exact_fast_pair_surviving estimate_fast_pair_surviving
      estimate_fast_pair_result estimate_edge_pair_count exact_edge_pair_surviving
      estimate_edge_pair_result)

text \<open>
  Claim C2, amended: for every sequence of interval records with at least two QRS events
  and at least one RR interval that, rounded to a double, lies strictly between the
  doubles 0.3 and 2.0, the estimator returns the rate when the rate lies in [40, 180],
  and the rate is then an integer between 40 and 180; otherwise it fails with the
  out-of-range error, which carries the rate. The rate is \<^verbatim>\<open>Math.round\<close> of the quotient
  of 60 by the average RR interval, in binary64 arithmetic.
\<close>

theorem calculateStableBPM_in_range_or_error:
  assumes "\<forall>v \<in> set intervals. \<not> nullish v"
    and "2 \<le> length (filter qualifies intervals)"
    and "\<exists>rr \<in> set (rr_intervals (qrs_entries intervals)). plausible rr"
  shows "(in_range (spec_bpm intervals)
          \<and> (\<exists>n. calculateStableBPM intervals = Inr n
                 \<and> spec_bpm intervals = Finite (of_int n) \<and> 40 \<le> n \<and> n \<le> 180))
       \<or> (\<not> in_range (spec_bpm intervals)
          \<and> calculateStableBPM intervals = Inl (OutOfRange (spec_bpm intervals)))"
proof (cases "in_range (spec_bpm intervals)")
  case True
  from assms(3) have ne: "surviving (rr_intervals (qrs_entries intervals)) \<noteq> []"
    by (auto simp: surviving_empty_conv)
  from assms(1,2) ne True
  have "calculateStableBPM intervals = Inr (int_of (spec_bpm intervals))"
    by (simp add: calculateStableBPM_char length_qrs_entries)
  with True in_range_spec_bpm [OF True] show ?thesis
    by blast
next
  case False
  from assms(3) have ne: "surviving (rr_intervals (qrs_entries intervals)) \<noteq> []"
    by (auto simp: surviving_empty_conv)
  from assms(1,2) ne False
  have "calculateStableBPM intervals = Inl (OutOfRange (spec_bpm intervals))"
    by (simp add: calculateStableBPM_char length_qrs_entries)
  with False show ?thesis
    by blast
qed

theorem calculateStableBPM_in_range_or_error_witness:
  "spec_bpm [qrs_event 1 0.1, phase_event ''ST'' 1.1 0.3, qrs_event 2 0.1] = Finite 60
   \<and> calculateStableBPM [qrs_event 1 0.1, phase_event ''ST'' 1.1 0.3, qrs_event 2 0.1] = Inr 60
   \<and> spec_bpm [qrs_event 0 0.08, qrs_event 1.9 0.08] = Finite 32
   \<and> calculateStableBPM [qrs_event 0 0.08, qrs_event 1.9 0.08] = Inl (OutOfRange (Finite 32))"
proof -
  let ?a = "[qrs_event 1 0.1, phase_event ''ST'' 1.1 0.3, qrs_event 2 0.1]"
  let ?b = "[qrs_event 0 0.08, qrs_event 1.9 0.08]"
  have a1: "\<forall>v \<in> set ?a. \<not> nullish v" and b1: "\<forall>v \<in> set ?b. \<not> nullish v"
    by (simp_all add: qrs_event_def phase_event_def)
  have a2: "2 \<le> length (filter qualifies ?a)"
    using estimate_second_pair_count by simp
  have b2: "2 \<le> length (filter qualifies ?b)"
    using estimate_slow_pair_count by simp
  have a3: "\<exists>rr \<in> set (rr_intervals (qrs_entries ?a)). plausible rr"
    using estimate_second_pair_surviving by (simp only: surviving_empty_conv) blast
  have b3: "\<exists>rr \<in> set (rr_intervals (qrs_entries ?b)). plausible rr"
    using estimate_slow_pair_surviving by (simp only: surviving_empty_conv) blast
  have sa: "spec_bpm ?a = Finite 60"
    by (rule estimate_second_pair_bpm)
  have sb: "spec_bpm ?b = Finite 32"
    by (rule estimate_slow_pair_bpm)
  have ia: "in_range (spec_bpm ?a)"
    by (simp only: sa) (simp add: in_range_def)
  have ib: "\<not> in_range (spec_bpm ?b)"
    by (simp only: sb) (simp add: in_range_def)
  from calculateStableBPM_in_range_or_error [OF a1 a2 a3] ia
  obtain n where n: "calculateStableBPM ?a = Inr n" "spec_bpm ?a = Finite (of_int n)"
    by blast
  from n(2) have "n = 60"
    by (simp only: sa) simp
  with n(1) have ra: "calculateStableBPM ?a = Inr 60" by simp
  from calculateStableBPM_in_range_or_error [OF b1 b2 b3] ib
  have "calculateStableBPM ?b = Inl (OutOfRange (spec_bpm ?b))"
    by blast
  then have rb: "calculateStableBPM ?b = Inl (OutOfRange (Finite 32))"
    by (simp only: sb)
  show ?thesis
    by (intro conjI sa ra sb rb)
qed

text \<open>
  Claim C4, as stated, has the range and the rate in exact arithmetic. Its third
  equivalence fails for QRS events entering at 0 and 1.518987341772152: the quotient of
  60 by the one RR interval rounds to 39 in exact arithmetic, below 40, while the double
  quotient is 39.5, \<^verbatim>\<open>Math.round\<close> gives 40 and the estimator returns 40. Its second
  equivalence fails for QRS events entering at 0.00000000000000003 and
  0.30000000000000004: the exact difference lies in the open range, and the estimator
  fails with the no-valid-data error.
\<close>

theorem calculateStableBPM_failures_counterexample:
  "exact_surviving (exact_rr_intervals (exact_entries
       [qrs_event 0 0.1, qrs_event 1.518987341772152 0.1])) \<noteq> []
   \<and> exact_bpm [qrs_event 0 0.1, qrs_event 1.518987341772152 0.1] = 39
   \<and> calculateStableBPM [qrs_event 0 0.1, qrs_event 1.518987341772152 0.1] = Inr 40
   \<and> length (filter qualifies
         [qrs_event 0.00000000000000003 0.1, qrs_event 0.30000000000000004 0.1]) = 2
   \<and> exact_surviving (exact_rr_intervals (exact_entries
         [qrs_event 0.00000000000000003 0.1, qrs_event 0.30000000000000004 0.1])) \<noteq> []
   \<and> calculateStableBPM [qrs_event 0.00000000000000003 0.1, qrs_event 0.30000000000000004 0.1]
       = Inl NoValidIntervals"
  by (intro conjI exact_tie_pair_surviving exact_tie_pair_bpm estimate_tie_pair_result
      estimate_edge_pair_count exact_edge_pair_surviving estimate_edge_pair_result)

text \<open>
  Claim C4, amended: on a sequence of interval records, \<^verbatim>\<open>calculateStableBPM\<close> fails with
  the insufficient-data error exactly when fewer than two records qualify as QRS events.
  Given two or more, it fails with the no-valid-data error exactly when no RR interval,
  rounded to a double, lies strictly between the doubles 0.3 and 2.0. Given an RR
  interval in that range, it fails with the out-of-range error exactly when the rate is
  below 40 or above 180, where the rate is \<^verbatim>\<open>Math.round\<close> of the quotient of 60 by the
  average RR interval, in binary64 arithmetic.
\<close>

theorem calculateStableBPM_failures:
  assumes "\<forall>v \<in> set intervals. \<not> nullish v"
  shows "(calculateStableBPM intervals = Inl InsufficientData
            \<longleftrightarrow> length (filter qualifies intervals) < 2)
       \<and> (2 \<le> length (filter qualifies intervals) \<longrightarrow>
            (calculateStableBPM intervals = Inl NoValidIntervals
               \<longleftrightarrow> (\<forall>rr \<in> set (rr_intervals (qrs_entries intervals)). \<not> plausible rr)))
       \<and> ((\<exists>rr \<in> set (rr_intervals (qrs_entries intervals)). plausible rr) \<longrightarrow>
            ((\<exists>bpm. calculateStableBPM intervals = Inl (OutOfRange bpm))
               \<longleftrightarrow> num_lt (spec_bpm intervals) (Finite 40)
                    \<or> num_gt (spec_bpm intervals) (Finite 180)))"
proof (intro conjI impI)
  show "calculateStableBPM intervals = Inl InsufficientData
          \<longleftrightarrow> length (filter qualifies intervals) < 2"
    using assms by (simp add: calculateStableBPM_char length_qrs_entries)
next
  assume "2 \<le> length (filter qualifies intervals)"
  with assms show "calculateStableBPM intervals = Inl NoValidIntervals
      \<longleftrightarrow> (\<forall>rr \<in> set (rr_intervals (qrs_entries intervals)). \<not> plausible rr)"
    by (simp add: calculateStableBPM_char length_qrs_entries surviving_empty_conv)
next
  assume ex: "\<exists>rr \<in> set (rr_intervals (qrs_entries intervals)). plausible rr"
  then have ne: "surviving (rr_intervals (qrs_entries intervals)) \<noteq> []"
    by (auto simp: surviving_empty_conv)
  have two: "\<not> length (qrs_entries intervals) < 2"
  proof
    assume "length (qrs_entries intervals) < 2"
    then have "rr_intervals (qrs_entries intervals) = []" by (rule rr_intervals_short)
    with ex show False by simp
  qed
  from ne have "nonneg (spec_bpm intervals)" by (rule spec_bpm_nonneg)
  then have r: "in_range (spec_bpm intervals)
      \<longleftrightarrow> \<not> (num_lt (spec_bpm intervals) (Finite 40) \<or> num_gt (spec_bpm intervals) (Finite 180))"
    by (rule nonneg_in_range)
  from assms ne two show "(\<exists>bpm. calculateStableBPM intervals = Inl (OutOfRange bpm))
      \<longleftrightarrow> num_lt (spec_bpm intervals) (Finite 40) \<or> num_gt (spec_bpm intervals) (Finite 180)"
    by (auto simp: calculateStableBPM_char r)
qed

theorem calculateStableBPM_failures_witness:
  "calculateStableBPM [qrs_event 0 0.1, phase_event ''PQ'' 0.2 0.1] = Inl InsufficientData
   \<and> calculateStableBPM [qrs_event 0 0.1, qrs_event 0.1 0.1] = Inl NoValidIntervals
   \<and> spec_bpm [qrs_event 0 0.1, qrs_event 0.31 0.1] = Finite 194
   \<and> (\<exists>bpm. calculateStableBPM [qrs_event 0 0.1, qrs_event 0.31 0.1] = Inl (OutOfRange bpm))
   \<and> spec_bpm [qrs_event 0 0.1, qrs_event 0.8 0.1] = Finite 75
   \<and> (\<nexists>bpm. calculateStableBPM [qrs_event 0 0.1, qrs_event 0.8 0.1] = Inl (OutOfRange bpm))"
proof -
  let ?a = "[qrs_event 0 0.1, phase_event ''PQ'' 0.2 0.1]"
  let ?b = "[qrs_event 0 0.1, qrs_event 0.1 0.1]"
  let ?c = "[qrs_event 0 0.1, qrs_event 0.31 0.1]"
  let ?d = "[qrs_event 0 0.1, qrs_event 0.8 0.1]"
  have n: "\<forall>v \<in> set ?a. \<not> nullish v" "\<forall>v \<in> set ?b. \<not> nullish v"
    "\<forall>v \<in> set ?c. \<not> nullish v" "\<forall>v \<in> set ?d. \<not> nullish v"
    by (simp_all add: qrs_event_def phase_event_def)
  have a: "length (filter qualifies ?a) < 2"
    by (simp add: qualifies_qrs_event qualifies_phase_event)
  have b1: "2 \<le> length (filter qualifies ?b)"
    using estimate_short_pair_count by simp
  have b2: "\<forall>rr \<in> set (rr_intervals (qrs_entries ?b)). \<not> plausible rr"
    using estimate_short_pair_surviving by (simp only: surviving_empty_conv)
  have c1: "\<exists>rr \<in> set (rr_intervals (qrs_entries ?c)). plausible rr"
    using estimate_fast_pair_surviving by (simp only: surviving_empty_conv) blast
  have d1: "\<exists>rr \<in> set (rr_intervals (qrs_entries ?d)). plausible rr"
    using estimate_plain_pair_surviving by (simp only: surviving_empty_conv) blast
  have c2: "spec_bpm ?c = Finite 194"
    by (rule estimate_fast_pair_bpm)
  have d2: "spec_bpm ?d = Finite 75"
    by (rule estimate_plain_pair_bpm)
  have c3: "num_lt (spec_bpm ?c) (Finite 40) \<or> num_gt (spec_bpm ?c) (Finite 180)"
    by (simp only: c2) (simp add: num_gt_def)
  have d3: "\<not> (num_lt (spec_bpm ?d) (Finite 40) \<or> num_gt (spec_bpm ?d) (Finite 180))"
    by (simp only: d2) (simp add: num_gt_def)
  from calculateStableBPM_failures [OF n(1)] a
  have ra: "calculateStableBPM ?a = Inl InsufficientData" by blast
  from calculateStableBPM_failures [OF n(2)] b1 b2
  have rb: "calculateStableBPM ?b = Inl NoValidIntervals" by blast
  from calculateStableBPM_failures [OF n(3)] c1 c3
  have rc: "\<exists>bpm. calculateStableBPM ?c = Inl (OutOfRange bpm)" by blast
  from calculateStableBPM_failures [OF n(4)] d1 d3
  have rd: "\<nexists>bpm. calculateStableBPM ?d = Inl (OutOfRange bpm)" by blast
  show ?thesis
    by (intro conjI ra rb c2 rc d2 rd)
qed

text \<open>
  Claim C9. The outcome of \<^verbatim>\<open>calculateStableBPM\<close> depends only on the records labelled
  "QRS": two sequences of interval records whose QRS-labelled records, taken with their
  entry and duration fields, are the same in the same order give the same result, the
  same rate or the same failure. Records with another label change nothing.
\<close>

theorem calculateStableBPM_only_qrs:
  assumes "\<forall>v \<in> set intervals1. \<not> nullish v"
    and "\<forall>v \<in> set intervals2. \<not> nullish v"
    and "qrs_records intervals1 = qrs_records intervals2"
  shows "calculateStableBPM intervals1 = calculateStableBPM intervals2"
proof -
  from assms(3) have "qrs_entries intervals1 = qrs_entries intervals2"
    by (simp only: qrs_entries_qrs_records)
  then show ?thesis
    by (simp only: calculateStableBPM_char [OF assms(1)] calculateStableBPM_char [OF assms(2)]
        spec_bpm_def)
qed

theorem calculateStableBPM_only_qrs_witness:
  "qrs_records [phase_event ''PQ'' 0 0.1, qrs_event 0.1 0.1, phase_event ''ST'' 0.2 0.3,
                JObj [(''phase'', JStr ''QRS''), (''entry'', JStr ''late''), (''duration'', JNum 1)],
                qrs_event 0.85 0.1]
     = [(JNum 0.1, JNum 0.1), (JStr ''late'', JNum 1), (JNum 0.85, JNum 0.1)]
   \<and> calculateStableBPM [phase_event ''PQ'' 0 0.1, qrs_event 0.1 0.1, phase_event ''ST'' 0.2 0.3,
                JObj [(''phase'', JStr ''QRS''), (''entry'', JStr ''late''), (''duration'', JNum 1)],
                qrs_event 0.85 0.1]
     = calculateStableBPM [qrs_event 0.1 0.1,
                JObj [(''duration'', JNum 1), (''phase'', JStr ''QRS''), (''entry'', JStr ''late'')],
                qrs_event 0.85 0.1, JNum 7]"
proof -
  let ?a = "[phase_event ''PQ'' 0 0.1, qrs_event 0.1 0.1, phase_event ''ST'' 0.2 0.3,
             JObj [(''phase'', JStr ''QRS''), (''entry'', JStr ''late''), (''duration'', JNum 1)],
             qrs_event 0.85 0.1]"
  let ?b = "[qrs_event 0.1 0.1,
             JObj [(''duration'', JNum 1), (''phase'', JStr ''QRS''), (''entry'', JStr ''late'')],
             qrs_event 0.85 0.1, JNum 7]"
  have n: "\<forall>v \<in> set ?a. \<not> nullish v" "\<forall>v \<in> set ?b. \<not> nullish v"
    by (simp_all add: qrs_event_def phase_event_def)
  have a: "qrs_records ?a = [(JNum 0.1, JNum 0.1), (JStr ''late'', JNum 1), (JNum 0.85, JNum 0.1)]"
    by (simp add: qrs_records_def timing_def estimator_eval)
  have b: "qrs_records ?b = [(JNum 0.1, JNum 0.1), (JStr ''late'', JNum 1), (JNum 0.85, JNum 0.1)]"
    by (simp add: qrs_records_def timing_def estimator_eval)
  from calculateStableBPM_only_qrs [OF n] a b show ?thesis by simp
qed


section \<open>Properties of the synthetic generator\<close>

subsection \<open>The loop pushes one sample per index\<close>

lemma ecg_loop_eq:
  "ecg_loop n R spb rnd i data = data @ map (ecg_sample R spb rnd) [i..<n]"
proof (induction n R spb rnd i data rule: ecg_loop.induct)
  case (1 n R spb rnd i data)
  show ?case
  proof (cases "i < n")
    case False
    then show ?thesis by (subst ecg_loop.simps) simp
  next
    case True
    then have "[i..<n] = i # [i + 1..<n]" by (simp add: upt_conv_Cons)
    with True 1 show ?thesis by (subst ecg_loop.simps) simp
  qed
qed

lemma generateRealisticECG_map:
  "generateRealisticECG n R (Some H) rnd = map (ecg_sample R (samples_per_beat R H) rnd) [0..<n]"
  by (simp add: generateRealisticECG_def ecg_loop_eq)

lemma generateRealisticECG_default:
  "generateRealisticECG n R None rnd = generateRealisticECG n R (Some 72) rnd"
  by (simp add: generateRealisticECG_def)

lemma generateRealisticECG_length: "length (generateRealisticECG n R H rnd) = n"
  by (simp add: generateRealisticECG_def ecg_loop_eq Let_def)

lemma generateRealisticECG_nth:
  "i < n \<Longrightarrow> generateRealisticECG n R (Some H) rnd ! i = ecg_sample R (samples_per_beat R H) rnd i"
  by (simp add: generateRealisticECG_map)

lemma time_ecg_sample: "time (ecg_sample R spb rnd i) = real i / R"
  by (simp add: ecg_sample_def)

lemma val_ecg_sample:
  "val (ecg_sample R spb rnd i)
     = phase_value (num_div (num_rem (Finite (real i)) spb) spb) + noise_term rnd i"
  by (simp add: ecg_sample_def)

lemma val_generateRealisticECG:
  "i < n \<Longrightarrow>
   val (generateRealisticECG n R (Some H) rnd ! i) = phase_value (pos_in_beat i R H) + noise_term rnd i"
  by (simp only: generateRealisticECG_nth val_ecg_sample pos_in_beat_def)

subsection \<open>The shape\<close>

lemma phase_value_amended: "phase_value p = amended_waveform p"
  by (simp add: phase_value_def amended_waveform_def in_window_def num_ge_def half_sine_def
      full_sine_def Let_def algebra_simps)

lemma scaled_sin_bound:
  fixes c x :: real
  assumes "0 \<le> c" and "c \<le> 1.5"
  shows "\<bar>c * sin x\<bar> \<le> 1.5"
proof -
  have "\<bar>c * sin x\<bar> = c * \<bar>sin x\<bar>" using assms by (simp add: abs_mult)
  also have "\<dots> \<le> c * 1" using assms by (intro mult_left_mono) simp_all
  finally show ?thesis using assms by simp
qed

lemma phase_value_bound: "\<bar>phase_value p\<bar> \<le> 1.5"
  unfolding phase_value_def Let_def
  using scaled_sin_bound [of "0.25"] scaled_sin_bound [of "0.2"] scaled_sin_bound [of "1.5"]
    scaled_sin_bound [of "0.3"]
  by (simp add: abs_mult)

lemma noise_term_mid_random: "noise_term mid_random i = 0"
  by (simp add: noise_term_def mid_random_def)

subsection \<open>The doubles of the literals\<close>

lemma round64_0_1: "round64 0.1 = Finite (3602879701896397 / 2 ^ 55)"
  by (rule round64_eval [where e = "- 4" and n = 7205759403792794]) (simp_all add: round64_arith)

lemma round64_0_2: "round64 0.2 = Finite (3602879701896397 / 2 ^ 54)"
  by (rule round64_eval [where e = "- 3" and n = 7205759403792794]) (simp_all add: round64_arith)

lemma round64_0_22: "round64 0.22 = Finite (7926335344172073 / 2 ^ 55)"
  by (rule round64_eval [where e = "- 3" and n = 7926335344172073]) (simp_all add: round64_arith)

lemma round64_0_28: "round64 0.28 = Finite (1261007895663739 / 2 ^ 52)"
  by (rule round64_eval [where e = "- 2" and n = 5044031582654956]) (simp_all add: round64_arith)

lemma round64_0_4: "round64 0.4 = Finite (3602879701896397 / 2 ^ 53)"
  by (rule round64_eval [where e = "- 2" and n = 7205759403792794]) (simp_all add: round64_arith)

lemma round64_0_6: "round64 0.6 = Finite (5404319552844595 / 2 ^ 53)"
  by (rule round64_eval [where e = "- 1" and n = 5404319552844595]) (simp_all add: round64_arith)

lemma round64_0_15: "round64 0.15 = Finite (5404319552844595 / 2 ^ 55)"
  by (rule round64_eval [where e = "- 3" and n = 5404319552844595]) (simp_all add: round64_arith)

lemma round64_0_35: "round64 0.35 = Finite (3152519739159347 / 2 ^ 53)"
  by (rule round64_eval [where e = "- 2" and n = 6305039478318694]) (simp_all add: round64_arith)


text \<open>The \<^verbatim>\<open>if\<close> chain on a finite position, with the bounds of the windows written out.\<close>

lemma phase_value_Finite:
  "phase_value (Finite p) =
     (if 3602879701896397 / 2 ^ 55 \<le> p \<and> p < 3602879701896397 / 2 ^ 54 then
        0.25 * sin ((p - 0.1) * pi * 10)
      else if 3602879701896397 / 2 ^ 54 \<le> p \<and> p < 5404319552844595 / 2 ^ 54 then
        (if 7926335344172073 / 2 ^ 55 \<le> p \<and> p < 1261007895663739 / 2 ^ 52 then
           1.5 * sin ((p - 0.22) * pi * 16.67)
         else - 0.2 * sin ((p - 0.2) * pi * 20))
      else if 3602879701896397 / 2 ^ 53 \<le> p \<and> p < 5404319552844595 / 2 ^ 53 then
        0.3 * sin ((p - 0.4) * pi * 5)
      else 0)"
  by (simp only: phase_value_def round64_0_1 round64_0_2 round64_0_3 round64_0_22 round64_0_28
      round64_0_4 round64_0_6 num_ge_def num_le.simps num_lt.simps real_of.simps Let_def)

subsection \<open>Three samples\<close>

lemma pos_in_beat_72_300_72: "pos_in_beat 72 300 72 = Finite (5188146770730811 / 2 ^ 54)"
proof -
  define h where "h = (72 :: real)"
  define r where "r = (300 :: real)"
  have lh: "round64 72 = Finite h"
    unfolding h_def
    by (rule round64_eval [where e = "6" and n = 5066549580791808]) (simp_all add: round64_arith)
  have lr: "round64 300 = Finite r"
    unfolding r_def
    by (rule round64_eval [where e = "8" and n = 5277655813324800]) (simp_all add: round64_arith)
  define f where "f = (7505999378950827 / 2 ^ 53 :: real)"
  have h0: "h \<noteq> 0"
    unfolding h_def by simp
  have lf: "round64 (60 / h) = Finite f"
    unfolding h_def f_def
    by (rule round64_eval [where e = "- 1" and n = 7505999378950827]) (simp_all add: round64_arith)
  define spb where "spb = (250 :: real)"
  have ls: "round64 (f * r) = Finite spb"
    unfolding f_def r_def spb_def
    by (rule round64_eval [where e = "7" and n = 8796093022208000]) (simp_all add: round64_arith)
  have s: "samples_per_beat 300 72 = Finite spb"
    by (simp only: samples_per_beat_def lh lr) (simp add: h0 lf ls)
  define m where "m = (72 :: real)"
  have s0: "spb \<noteq> 0"
    unfolding spb_def by simp
  have lm: "js_rem 72 spb = m"
    unfolding js_rem_def spb_def m_def by simp
  have lp: "round64 (m / spb) = Finite (5188146770730811 / 2 ^ 54)"
    unfolding m_def spb_def
    by (rule round64_eval [where e = "- 2" and n = 5188146770730811]) (simp_all add: round64_arith)
  show ?thesis
    by (simp only: pos_in_beat_def s) (simp add: s0 lm lp)
qed

lemma pos_in_beat_62_300_72: "pos_in_beat 62 300 72 = Finite (1116892707587883 / 2 ^ 52)"
proof -
  define h where "h = (72 :: real)"
  define r where "r = (300 :: real)"
  have lh: "round64 72 = Finite h"
    unfolding h_def
    by (rule round64_eval [where e = "6" and n = 5066549580791808]) (simp_all add: round64_arith)
  have lr: "round64 300 = Finite r"
    unfolding r_def
    by (rule round64_eval [where e = "8" and n = 5277655813324800]) (simp_all add: round64_arith)
  define f where "f = (7505999378950827 / 2 ^ 53 :: real)"
  have h0: "h \<noteq> 0"
    unfolding h_def by simp
  have lf: "round64 (60 / h) = Finite f"
    unfolding h_def f_def
    by (rule round64_eval [where e = "- 1" and n = 7505999378950827]) (simp_all add: round64_arith)
  define spb where "spb = (250 :: real)"
  have ls: "round64 (f * r) = Finite spb"
    unfolding f_def r_def spb_def
    by (rule round64_eval [where e = "7" and n = 8796093022208000]) (simp_all add: round64_arith)
  have s: "samples_per_beat 300 72 = Finite spb"
    by (simp only: samples_per_beat_def lh lr) (simp add: h0 lf ls)
  define m where "m = (62 :: real)"
  have s0: "spb \<noteq> 0"
    unfolding spb_def by simp
  have lm: "js_rem 62 spb = m"
    unfolding js_rem_def spb_def m_def by simp
  have lp: "round64 (m / spb) = Finite (1116892707587883 / 2 ^ 52)"
    unfolding m_def spb_def
    by (rule round64_eval [where e = "- 3" and n = 8935141660703064]) (simp_all add: round64_arith)
  show ?thesis
    by (simp only: pos_in_beat_def s) (simp add: s0 lm lp)
qed

lemma pos_in_beat_475_250_72: "pos_in_beat 475 250 72 = Finite (2522015791327477 / 2 ^ 53)"
proof -
  define h where "h = (72 :: real)"
  define r where "r = (250 :: real)"
  have lh: "round64 72 = Finite h"
    unfolding h_def
    by (rule round64_eval [where e = "6" and n = 5066549580791808]) (simp_all add: round64_arith)
  have lr: "round64 250 = Finite r"
    unfolding r_def
    by (rule round64_eval [where e = "7" and n = 8796093022208000]) (simp_all add: round64_arith)
  define f where "f = (7505999378950827 / 2 ^ 53 :: real)"
  have h0: "h \<noteq> 0"
    unfolding h_def by simp
  have lf: "round64 (60 / h) = Finite f"
    unfolding h_def f_def
    by (rule round64_eval [where e = "- 1" and n = 7505999378950827]) (simp_all add: round64_arith)
  define spb where "spb = (7330077518506667 / 2 ^ 45 :: real)"
  have ls: "round64 (f * r) = Finite spb"
    unfolding f_def r_def spb_def
    by (rule round64_eval [where e = "7" and n = 7330077518506667]) (simp_all add: round64_arith)
  have s: "samples_per_beat 250 72 = Finite spb"
    by (simp only: samples_per_beat_def lh lr) (simp add: h0 lf ls)
  define m where "m = (1026210852590933 / 2 ^ 44 :: real)"
  have s0: "spb \<noteq> 0"
    unfolding spb_def by simp
  have lm: "js_rem 475 spb = m"
    unfolding js_rem_def spb_def m_def by simp
  have lp: "round64 (m / spb) = Finite (2522015791327477 / 2 ^ 53)"
    unfolding m_def spb_def
    by (rule round64_eval [where e = "- 2" and n = 5044031582654954]) (simp_all add: round64_arith)
  show ?thesis
    by (simp only: pos_in_beat_def s) (simp add: s0 lm lp)
qed


text \<open>Sample 72 at 300 samples per second and 72 beats per minute lies after the R wave.\<close>

lemma sample_72_value:
  "val (generateRealisticECG 1000 300 (Some 72) mid_random ! 72)
     = - 0.2 * sin ((5188146770730811 / 2 ^ 54 - 0.2) * pi * 20)"
proof -
  have "val (generateRealisticECG 1000 300 (Some 72) mid_random ! 72)
      = phase_value (pos_in_beat 72 300 72) + noise_term mid_random 72"
    by (rule val_generateRealisticECG) simp
  also have "\<dots> = phase_value (Finite (5188146770730811 / 2 ^ 54))"
    by (simp only: pos_in_beat_72_300_72 noise_term_mid_random add_0_right)
  also have "\<dots> = - 0.2 * sin ((5188146770730811 / 2 ^ 54 - 0.2) * pi * 20)"
    by (simp add: phase_value_Finite)
  finally show ?thesis .
qed

text \<open>Sample 62 lies in the R wave.\<close>

lemma sample_62_value:
  "val (generateRealisticECG 1000 300 (Some 72) mid_random ! 62)
     = 1.5 * sin ((1116892707587883 / 2 ^ 52 - 0.22) * pi * 16.67)"
proof -
  have "val (generateRealisticECG 1000 300 (Some 72) mid_random ! 62)
      = phase_value (pos_in_beat 62 300 72) + noise_term mid_random 62"
    by (rule val_generateRealisticECG) simp
  also have "\<dots> = phase_value (Finite (1116892707587883 / 2 ^ 52))"
    by (simp only: pos_in_beat_62_300_72 noise_term_mid_random add_0_right)
  also have "\<dots> = 1.5 * sin ((1116892707587883 / 2 ^ 52 - 0.22) * pi * 16.67)"
    by (simp add: phase_value_Finite)
  finally show ?thesis .
qed

text \<open>
  Sample 475 at 250 samples per second and 72 beats per minute: the position is the
  double just below 0.28, inside the R wave.
\<close>

lemma sample_475_value:
  "val (generateRealisticECG 1000 250 (Some 72) mid_random ! 475)
     = 1.5 * sin ((2522015791327477 / 2 ^ 53 - 0.22) * pi * 16.67)"
proof -
  have "val (generateRealisticECG 1000 250 (Some 72) mid_random ! 475)
      = phase_value (pos_in_beat 475 250 72) + noise_term mid_random 475"
    by (rule val_generateRealisticECG) simp
  also have "\<dots> = phase_value (Finite (2522015791327477 / 2 ^ 53))"
    by (simp only: pos_in_beat_475_250_72 noise_term_mid_random add_0_right)
  also have "\<dots> = 1.5 * sin ((2522015791327477 / 2 ^ 53 - 0.22) * pi * 16.67)"
    by (simp add: phase_value_Finite)
  finally show ?thesis .
qed

lemma sin_neg_between:
  fixes c :: real
  assumes "1 < c" and "c < 2"
  shows "sin (c * pi) < 0"
proof (rule sin_lt_zero)
  from assms(1) pi_gt_zero show "pi < c * pi" by simp
  from assms(2) pi_gt_zero show "c * pi < 2 * pi" by simp
qed

lemma sin_pos_between:
  fixes c :: real
  assumes "0 < c" and "c < 1"
  shows "0 < sin (c * pi)"
proof (rule sin_gt_zero)
  from assms(1) pi_gt_zero show "0 < c * pi" by simp
  from assms(2) pi_gt_zero show "c * pi < pi" by simp
qed

lemma sin_less_between:
  fixes c d :: real
  assumes "- (1 / 2) \<le> c" and "c < d" and "d \<le> 1 / 2"
  shows "sin (c * pi) < sin (d * pi)"
proof (rule sin_monotone_2pi)
  from assms(1) pi_gt_zero have "- (1 / 2) * pi \<le> c * pi"
    by (intro mult_right_mono) simp_all
  then show "- (pi / 2) \<le> c * pi" by simp
  from assms(2) pi_gt_zero show "c * pi < d * pi" by simp
  from assms(3) pi_gt_zero have "d * pi \<le> 1 / 2 * pi"
    by (intro mult_right_mono) simp_all
  then show "d * pi \<le> pi / 2" by simp
qed

text \<open>
  Claim C3, as stated: the noise-free value of every sample is the piecewise waveform of
  half-sines at the exact position of the sample in its beat. It is not, on either piece
  of the QRS window. With 300 samples per second and 72 beats per minute, sample 72 is
  at position 0.288 of its beat, after the R wave, where a half-sine of amplitude -0.2
  across the window from 0.20 to 0.30 is negative and the generator's value, with the
  noise at 0, is positive. Sample 62 is at position 0.248, in the R wave, where the
  generator's value is above the half-sine of amplitude 1.5 across the window from 0.22
  to 0.28.
\<close>

theorem generateRealisticECG_half_sines_counterexample:
  "noise_term mid_random 72 = 0
   \<and> exact_pos_in_beat 72 300 72 = 0.288
   \<and> spec_waveform (exact_pos_in_beat 72 300 72) < 0
   \<and> 0 < val (generateRealisticECG 1000 300 (Some 72) mid_random ! 72)
   \<and> noise_term mid_random 62 = 0
   \<and> exact_pos_in_beat 62 300 72 = 0.248
   \<and> spec_waveform (exact_pos_in_beat 62 300 72)
       < val (generateRealisticECG 1000 300 (Some 72) mid_random ! 62)"
proof -
  have p: "exact_pos_in_beat 72 300 72 = 0.288"
    by (simp add: exact_pos_in_beat_def)
  have s: "spec_waveform (exact_pos_in_beat 72 300 72) = - 0.2 * sin (0.88 * pi)"
    by (simp add: p spec_waveform_def half_sine_def)
  have "0 < sin (0.88 * pi)"
    by (rule sin_pos_between) simp_all
  then have s_neg: "spec_waveform (exact_pos_in_beat 72 300 72) < 0"
    unfolding s by simp
  have "(5188146770730811 / 2 ^ 54 - 0.2) * pi * 20
      = (5188146770730811 / 2 ^ 54 - 0.2) * 20 * pi"
    by simp
  moreover have "sin ((5188146770730811 / 2 ^ 54 - 0.2) * 20 * pi) < 0"
    by (rule sin_neg_between) simp_all
  ultimately have "sin ((5188146770730811 / 2 ^ 54 - 0.2) * pi * 20) < 0"
    by (simp only:)
  then have v_pos: "0 < val (generateRealisticECG 1000 300 (Some 72) mid_random ! 72)"
    unfolding sample_72_value by simp
  have p': "exact_pos_in_beat 62 300 72 = 0.248"
    by (simp add: exact_pos_in_beat_def)
  have s': "spec_waveform (exact_pos_in_beat 62 300 72) = 1.5 * sin (7 / 15 * pi)"
    by (simp add: p' spec_waveform_def half_sine_def)
  have "(1116892707587883 / 2 ^ 52 - 0.22) * pi * 16.67
      = (1116892707587883 / 2 ^ 52 - 0.22) * 16.67 * pi"
    by simp
  moreover have "sin (7 / 15 * pi) < sin ((1116892707587883 / 2 ^ 52 - 0.22) * 16.67 * pi)"
    by (rule sin_less_between) simp_all
  ultimately have "sin (7 / 15 * pi) < sin ((1116892707587883 / 2 ^ 52 - 0.22) * pi * 16.67)"
    by (simp only:)
  then have r: "spec_waveform (exact_pos_in_beat 62 300 72)
      < val (generateRealisticECG 1000 300 (Some 72) mid_random ! 62)"
    unfolding sample_62_value s' by simp
  show ?thesis
    by (intro conjI noise_term_mid_random p s_neg v_pos p' r)
qed

text \<open>
  Claim C3, amended: for every sample index below the sample count, the value of the
  sample less its noise term is the piecewise waveform at the position of the sample in
  its beat, where the position is the double the code computes,
  \<^verbatim>\<open>(i % samplesPerBeat) / samplesPerBeat\<close> with \<^verbatim>\<open>samplesPerBeat = (60 / H) * R\<close> in
  binary64 arithmetic, the bounds of the windows are the doubles of their literals, and
  the arithmetic of a wave on the position is exact: a half-sine of amplitude 0.25 on
  [0.10, 0.20); on [0.20, 0.30) a base wave of amplitude -0.2 that runs through a whole
  period of the sine across the window, overridden on [0.22, 0.28) by the R wave
  1.5 sin(16.67 pi (p - 0.22)); a half-sine of amplitude 0.3 on [0.40, 0.60); and 0
  elsewhere.
\<close>

theorem generateRealisticECG_waveform:
  assumes "i < N"
  shows "val (generateRealisticECG N R (Some H) random ! i) - noise_term random i
           = amended_waveform (pos_in_beat i R H)"
proof -
  from assms have "val (generateRealisticECG N R (Some H) random ! i)
      = phase_value (pos_in_beat i R H) + noise_term random i"
    by (rule val_generateRealisticECG)
  then show ?thesis
    by (simp add: phase_value_amended)
qed

theorem generateRealisticECG_waveform_witness:
  "pos_in_beat 475 250 72 = Finite (2522015791327477 / 2 ^ 53)
   \<and> val (generateRealisticECG 1000 250 (Some 72) mid_random ! 475) - noise_term mid_random 475
       = amended_waveform (pos_in_beat 475 250 72)
   \<and> val (generateRealisticECG 1000 250 (Some 72) mid_random ! 475) < 0"
proof -
  have "(475::nat) < 1000" by simp
  note w = generateRealisticECG_waveform [OF this, of 250 72 mid_random]
  have "(2522015791327477 / 2 ^ 53 - 0.22) * pi * 16.67
      = (2522015791327477 / 2 ^ 53 - 0.22) * 16.67 * pi"
    by simp
  moreover have "sin ((2522015791327477 / 2 ^ 53 - 0.22) * 16.67 * pi) < 0"
    by (rule sin_neg_between) simp_all
  ultimately have "sin ((2522015791327477 / 2 ^ 53 - 0.22) * pi * 16.67) < 0"
    by (simp only:)
  then have n: "val (generateRealisticECG 1000 250 (Some 72) mid_random ! 475) < 0"
    unfolding sample_475_value by simp
  show ?thesis
    by (rule conjI [OF pos_in_beat_475_250_72 conjI [OF w n]])
qed

text \<open>
  Claim C5. For every sample count N, every sampling rate R above 0 and every heart rate H
  above 0, \<^verbatim>\<open>generateRealisticECG(N, R, H)\<close> returns exactly N sample points, and the
  time of the i-th is i / R, for every i below N.
\<close>

theorem generateRealisticECG_length_times:
  assumes "0 < R" and "0 < H"
  shows "length (generateRealisticECG N R (Some H) random) = N
       \<and> (\<forall>i < N. time (generateRealisticECG N R (Some H) random ! i) = real i / R)"
  by (simp add: generateRealisticECG_length generateRealisticECG_nth time_ecg_sample)

theorem generateRealisticECG_length_times_witness:
  "length (generateRealisticECG 5 360 (Some 60) mid_random) = 5
   \<and> time (generateRealisticECG 5 360 (Some 60) mid_random ! 3) = 3 / 360"
proof -
  have "(0::real) < 360" and "(0::real) < 60"
    by simp_all
  note t = generateRealisticECG_length_times [OF this, of 5 mid_random]
  from t have l: "length (generateRealisticECG 5 360 (Some 60) mid_random) = 5"
    by (rule conjunct1)
  from t have "\<forall>i < 5. time (generateRealisticECG 5 360 (Some 60) mid_random ! i) = real i / 360"
    by (rule conjunct2)
  then have "(3::nat) < 5 \<longrightarrow>
      time (generateRealisticECG 5 360 (Some 60) mid_random ! 3) = real (3::nat) / 360"
    by blast
  with l show ?thesis
    by simp
qed

text \<open>
  Claim C7. For 1000 samples at 300 samples per second and 72 beats per minute, if the
  noise added to every sample lies between -0.025 and 0.025, then the output has exactly
  1000 elements, the time of the i-th is i / 300, and every value lies between -1.525 and
  1.775.
\<close>

theorem generateRealisticECG_1000_300_72:
  assumes "\<forall>i < 1000. - 0.025 \<le> noise_term random i \<and> noise_term random i \<le> 0.025"
  shows "length (generateRealisticECG 1000 300 (Some 72) random) = 1000
       \<and> (\<forall>i < 1000.
            time (generateRealisticECG 1000 300 (Some 72) random ! i) = real i / 300
            \<and> - 1.525 \<le> val (generateRealisticECG 1000 300 (Some 72) random ! i)
            \<and> val (generateRealisticECG 1000 300 (Some 72) random ! i) \<le> 1.775)"
proof (intro conjI allI impI)
  show "length (generateRealisticECG 1000 300 (Some 72) random) = 1000"
    by (rule generateRealisticECG_length)
next
  fix i :: nat
  assume i: "i < 1000"
  let ?p = "pos_in_beat i 300 72"
  have nth: "generateRealisticECG 1000 300 (Some 72) random ! i
               = ecg_sample 300 (samples_per_beat 300 72) random i"
    using i by (rule generateRealisticECG_nth)
  show "time (generateRealisticECG 1000 300 (Some 72) random ! i) = real i / 300"
    unfolding nth by (rule time_ecg_sample)
  have v: "val (generateRealisticECG 1000 300 (Some 72) random ! i)
             = phase_value ?p + noise_term random i"
    using i by (rule val_generateRealisticECG)
  have b: "\<bar>phase_value ?p\<bar> \<le> 1.5"
    by (rule phase_value_bound)
  from assms i have n: "- 0.025 \<le> noise_term random i" "noise_term random i \<le> 0.025"
    by simp_all
  from b n show "- 1.525 \<le> val (generateRealisticECG 1000 300 (Some 72) random ! i)"
    unfolding v by (simp add: abs_le_iff)
  from b n show "val (generateRealisticECG 1000 300 (Some 72) random ! i) \<le> 1.775"
    unfolding v by (simp add: abs_le_iff)
qed

theorem generateRealisticECG_1000_300_72_witness:
  "length (generateRealisticECG 1000 300 (Some 72) mid_random) = 1000
   \<and> time (generateRealisticECG 1000 300 (Some 72) mid_random ! 999) = 999 / 300
   \<and> - 1.525 \<le> val (generateRealisticECG 1000 300 (Some 72) mid_random ! 999)
   \<and> val (generateRealisticECG 1000 300 (Some 72) mid_random ! 999) \<le> 1.775"
proof -
  have "\<forall>i < 1000. - 0.025 \<le> noise_term mid_random i \<and> noise_term mid_random i \<le> 0.025"
    by (simp add: noise_term_mid_random)
  note t = generateRealisticECG_1000_300_72 [OF this]
  from t have l: "length (generateRealisticECG 1000 300 (Some 72) mid_random) = 1000"
    by (rule conjunct1)
  from t have "\<forall>i < 1000.
      time (generateRealisticECG 1000 300 (Some 72) mid_random ! i) = real i / 300
      \<and> - 1.525 \<le> val (generateRealisticECG 1000 300 (Some 72) mid_random ! i)
      \<and> val (generateRealisticECG 1000 300 (Some 72) mid_random ! i) \<le> 1.775"
    by (rule conjunct2)
  then have "(999::nat) < 1000 \<longrightarrow>
      time (generateRealisticECG 1000 300 (Some 72) mid_random ! 999) = real (999::nat) / 300
      \<and> - 1.525 \<le> val (generateRealisticECG 1000 300 (Some 72) mid_random ! 999)
      \<and> val (generateRealisticECG 1000 300 (Some 72) mid_random ! 999) \<le> 1.775"
    by blast
  with l show ?thesis
    by simp
qed

text \<open>
  Claim C8. With the noise term at 0 the generator is deterministic: two runs on the same
  sample count, sampling rate and heart rate, in each of which the noise added to every
  sample is 0, return the same sequence of time and value pairs.
\<close>

theorem generateRealisticECG_deterministic:
  assumes "\<forall>i < N. noise_term random1 i = 0" and "\<forall>i < N. noise_term random2 i = 0"
  shows "generateRealisticECG N R H random1 = generateRealisticECG N R H random2"
proof -
  have "map (ecg_sample R spb random1) [0..<N] = map (ecg_sample R spb random2) [0..<N]" for spb
    using assms by (intro map_cong) (simp_all add: ecg_sample_def)
  then show ?thesis
    by (simp add: generateRealisticECG_def ecg_loop_eq Let_def)
qed

theorem generateRealisticECG_deterministic_witness:
  "generateRealisticECG 4 300 (Some 72) mid_random
     = generateRealisticECG 4 300 (Some 72) (\<lambda>i. if i < 4 then 1 / 2 else 9 / 10)"
proof -
  have a: "\<forall>i < 4. noise_term mid_random i = 0"
    by (simp add: noise_term_mid_random)
  have b: "\<forall>i < 4. noise_term (\<lambda>i. if i < 4 then 1 / 2 else 9 / 10) i = 0"
    by (simp add: noise_term_def)
  from generateRealisticECG_deterministic [OF a b] show ?thesis .
qed


section \<open>Properties of the interval-walking generator\<close>

text \<open>The loop either returns from inside the head interval or goes on to the rest.\<close>

lemma generateECGPoint_Cons:
  "generateECGPoint (interval # intervals) t =
     (if in_span t interval then generateECGPoint [interval] t else generateECGPoint intervals t)"
  by (simp add: in_span_def num_ge_def)

lemma generateECGPoint_find:
  "generateECGPoint intervals t =
     (case find (in_span t) intervals of
        None \<Rightarrow> 0
      | Some interval \<Rightarrow> generateECGPoint [interval] t)"
proof (induction intervals)
  case Nil
  show ?case by simp
next
  case (Cons x xs)
  show ?case
  proof (cases "in_span t x")
    case True
    then show ?thesis
      by (simp only: generateECGPoint_Cons [of x xs] find.simps if_True option.case)
  next
    case False
    then show ?thesis
      by (simp only: generateECGPoint_Cons [of x xs] find.simps if_False Cons.IH)
  qed
qed

lemma generateECGPoint_other_label:
  "phase interval \<notin> {''QRS'', ''PQ'', ''ST''} \<Longrightarrow> generateECGPoint [interval] t = 0"
  by (simp add: Let_def)

subsection \<open>Spans of some intervals\<close>

lemma span_T_edge:
  "\<not> in_span 0.7999999999999999 \<lparr>phase = ''T'', entry = 0.1, duration = 0.7\<rparr>"
proof -
  define td where "td = (7205759403792793 / 2 ^ 53 :: real)"
  have lt: "round64 0.7999999999999999 = Finite td"
    unfolding td_def
    by (rule round64_eval [where e = "- 1" and n = 7205759403792793]) (simp_all add: round64_arith)
  define e where "e = (3602879701896397 / 2 ^ 55 :: real)"
  have le: "round64 0.1 = Finite e"
    unfolding e_def
    by (rule round64_eval [where e = "- 4" and n = 7205759403792794]) (simp_all add: round64_arith)
  define d where "d = (3152519739159347 / 2 ^ 52 :: real)"
  have ld: "round64 0.7 = Finite d"
    unfolding d_def
    by (rule round64_eval [where e = "- 1" and n = 6305039478318694]) (simp_all add: round64_arith)
  define s where "s = (7205759403792793 / 2 ^ 53 :: real)"
  have hs: "round64 (e + d) = Finite s"
    unfolding e_def d_def s_def
    by (rule round64_eval [where e = "- 1" and n = 7205759403792793]) (simp_all add: round64_arith)
  have c1: "e \<le> td"
    unfolding e_def td_def by simp
  have c2: "\<not> td < s"
    unfolding s_def td_def by simp
  show ?thesis
    by (simp only: in_span_def PhaseInterval.select_convs lt le ld) (simp add: hs c1 c2)
qed

lemma span_QRS_edge:
  "in_span 0.7999999999999999 \<lparr>phase = ''QRS'', entry = 0.5, duration = 1\<rparr>"
proof -
  define td where "td = (7205759403792793 / 2 ^ 53 :: real)"
  have lt: "round64 0.7999999999999999 = Finite td"
    unfolding td_def
    by (rule round64_eval [where e = "- 1" and n = 7205759403792793]) (simp_all add: round64_arith)
  define e where "e = (1 / 2 ^ 1 :: real)"
  have le: "round64 0.5 = Finite e"
    unfolding e_def
    by (rule round64_eval [where e = "- 1" and n = 4503599627370496]) (simp_all add: round64_arith)
  define d where "d = (1 :: real)"
  have ld: "round64 1 = Finite d"
    unfolding d_def
    by (rule round64_eval [where e = "0" and n = 4503599627370496]) (simp_all add: round64_arith)
  define s where "s = (3 / 2 ^ 1 :: real)"
  have hs: "round64 (e + d) = Finite s"
    unfolding e_def d_def s_def
    by (rule round64_eval [where e = "0" and n = 6755399441055744]) (simp_all add: round64_arith)
  have c1: "e \<le> td"
    unfolding e_def td_def by simp
  have c2: "td < s"
    unfolding s_def td_def by simp
  show ?thesis
    by (simp only: in_span_def PhaseInterval.select_convs lt le ld) (simp add: hs c1 c2)
qed

lemma span_PQ_late:
  "\<not> in_span 1 \<lparr>phase = ''PQ'', entry = 0, duration = 0.1\<rparr>"
proof -
  define td where "td = (1 :: real)"
  have lt: "round64 1 = Finite td"
    unfolding td_def
    by (rule round64_eval [where e = "0" and n = 4503599627370496]) (simp_all add: round64_arith)
  define e where "e = (0 :: real)"
  have le: "round64 0 = Finite e"
    by (simp add: round64_def e_def)
  define d where "d = (3602879701896397 / 2 ^ 55 :: real)"
  have ld: "round64 0.1 = Finite d"
    unfolding d_def
    by (rule round64_eval [where e = "- 4" and n = 7205759403792794]) (simp_all add: round64_arith)
  define s where "s = (3602879701896397 / 2 ^ 55 :: real)"
  have hs: "round64 (e + d) = Finite s"
    unfolding e_def d_def s_def
    by (rule round64_eval [where e = "- 4" and n = 7205759403792794]) (simp_all add: round64_arith)
  have c1: "e \<le> td"
    unfolding e_def td_def by simp
  have c2: "\<not> td < s"
    unfolding s_def td_def by simp
  show ?thesis
    by (simp only: in_span_def PhaseInterval.select_convs lt le ld) (simp add: hs c1 c2)
qed

lemma span_T_late:
  "\<not> in_span 1 \<lparr>phase = ''T'', entry = 0.1, duration = 0.5\<rparr>"
proof -
  define td where "td = (1 :: real)"
  have lt: "round64 1 = Finite td"
    unfolding td_def
    by (rule round64_eval [where e = "0" and n = 4503599627370496]) (simp_all add: round64_arith)
  define e where "e = (3602879701896397 / 2 ^ 55 :: real)"
  have le: "round64 0.1 = Finite e"
    unfolding e_def
    by (rule round64_eval [where e = "- 4" and n = 7205759403792794]) (simp_all add: round64_arith)
  define d where "d = (1 / 2 ^ 1 :: real)"
  have ld: "round64 0.5 = Finite d"
    unfolding d_def
    by (rule round64_eval [where e = "- 1" and n = 4503599627370496]) (simp_all add: round64_arith)
  define s where "s = (5404319552844595 / 2 ^ 53 :: real)"
  have hs: "round64 (e + d) = Finite s"
    unfolding e_def d_def s_def
    by (rule round64_eval [where e = "- 1" and n = 5404319552844595]) (simp_all add: round64_arith)
  have c1: "e \<le> td"
    unfolding e_def td_def by simp
  have c2: "\<not> td < s"
    unfolding s_def td_def by simp
  show ?thesis
    by (simp only: in_span_def PhaseInterval.select_convs lt le ld) (simp add: hs c1 c2)
qed

lemma span_QRS_late:
  "\<not> in_span 1 \<lparr>phase = ''QRS'', entry = 0.3, duration = 0.1\<rparr>"
proof -
  define td where "td = (1 :: real)"
  have lt: "round64 1 = Finite td"
    unfolding td_def
    by (rule round64_eval [where e = "0" and n = 4503599627370496]) (simp_all add: round64_arith)
  define e where "e = (5404319552844595 / 2 ^ 54 :: real)"
  have le: "round64 0.3 = Finite e"
    unfolding e_def
    by (rule round64_eval [where e = "- 2" and n = 5404319552844595]) (simp_all add: round64_arith)
  define d where "d = (3602879701896397 / 2 ^ 55 :: real)"
  have ld: "round64 0.1 = Finite d"
    unfolding d_def
    by (rule round64_eval [where e = "- 4" and n = 7205759403792794]) (simp_all add: round64_arith)
  define s where "s = (3602879701896397 / 2 ^ 53 :: real)"
  have hs: "round64 (e + d) = Finite s"
    unfolding e_def d_def s_def
    by (rule round64_eval [where e = "- 2" and n = 7205759403792794]) (simp_all add: round64_arith)
  have c1: "e \<le> td"
    unfolding e_def td_def by simp
  have c2: "\<not> td < s"
    unfolding s_def td_def by simp
  show ?thesis
    by (simp only: in_span_def PhaseInterval.select_convs lt le ld) (simp add: hs c1 c2)
qed

lemma span_PQ_mid:
  "\<not> in_span 0.35 \<lparr>phase = ''PQ'', entry = 0, duration = 0.1\<rparr>"
proof -
  define td where "td = (3152519739159347 / 2 ^ 53 :: real)"
  have lt: "round64 0.35 = Finite td"
    unfolding td_def
    by (rule round64_eval [where e = "- 2" and n = 6305039478318694]) (simp_all add: round64_arith)
  define e where "e = (0 :: real)"
  have le: "round64 0 = Finite e"
    by (simp add: round64_def e_def)
  define d where "d = (3602879701896397 / 2 ^ 55 :: real)"
  have ld: "round64 0.1 = Finite d"
    unfolding d_def
    by (rule round64_eval [where e = "- 4" and n = 7205759403792794]) (simp_all add: round64_arith)
  define s where "s = (3602879701896397 / 2 ^ 55 :: real)"
  have hs: "round64 (e + d) = Finite s"
    unfolding e_def d_def s_def
    by (rule round64_eval [where e = "- 4" and n = 7205759403792794]) (simp_all add: round64_arith)
  have c1: "e \<le> td"
    unfolding e_def td_def by simp
  have c2: "\<not> td < s"
    unfolding s_def td_def by simp
  show ?thesis
    by (simp only: in_span_def PhaseInterval.select_convs lt le ld) (simp add: hs c1 c2)
qed

lemma span_T_mid:
  "in_span 0.35 \<lparr>phase = ''T'', entry = 0.1, duration = 0.5\<rparr>"
proof -
  define td where "td = (3152519739159347 / 2 ^ 53 :: real)"
  have lt: "round64 0.35 = Finite td"
    unfolding td_def
    by (rule round64_eval [where e = "- 2" and n = 6305039478318694]) (simp_all add: round64_arith)
  define e where "e = (3602879701896397 / 2 ^ 55 :: real)"
  have le: "round64 0.1 = Finite e"
    unfolding e_def
    by (rule round64_eval [where e = "- 4" and n = 7205759403792794]) (simp_all add: round64_arith)
  define d where "d = (1 / 2 ^ 1 :: real)"
  have ld: "round64 0.5 = Finite d"
    unfolding d_def
    by (rule round64_eval [where e = "- 1" and n = 4503599627370496]) (simp_all add: round64_arith)
  define s where "s = (5404319552844595 / 2 ^ 53 :: real)"
  have hs: "round64 (e + d) = Finite s"
    unfolding e_def d_def s_def
    by (rule round64_eval [where e = "- 1" and n = 5404319552844595]) (simp_all add: round64_arith)
  have c1: "e \<le> td"
    unfolding e_def td_def by simp
  have c2: "td < s"
    unfolding s_def td_def by simp
  show ?thesis
    by (simp only: in_span_def PhaseInterval.select_convs lt le ld) (simp add: hs c1 c2)
qed

lemma spike_QRS_edge:
  "generateECGPoint [\<lparr>phase = ''QRS'', entry = 0.5, duration = 1\<rparr>] 0.7999999999999999 = 1.8 * sin ((2702159776422297 / 2 ^ 53 - 0.15) / 0.2 * pi)"
proof -
  define td where "td = (7205759403792793 / 2 ^ 53 :: real)"
  have lt: "round64 0.7999999999999999 = Finite td"
    unfolding td_def
    by (rule round64_eval [where e = "- 1" and n = 7205759403792793]) (simp_all add: round64_arith)
  define e where "e = (1 / 2 ^ 1 :: real)"
  have le: "round64 0.5 = Finite e"
    unfolding e_def
    by (rule round64_eval [where e = "- 1" and n = 4503599627370496]) (simp_all add: round64_arith)
  define d where "d = (1 :: real)"
  have ld: "round64 1 = Finite d"
    unfolding d_def
    by (rule round64_eval [where e = "0" and n = 4503599627370496]) (simp_all add: round64_arith)
  define s where "s = (3 / 2 ^ 1 :: real)"
  have hs: "round64 (e + d) = Finite s"
    unfolding e_def d_def s_def
    by (rule round64_eval [where e = "0" and n = 6755399441055744]) (simp_all add: round64_arith)
  define pt where "pt = (2702159776422297 / 2 ^ 53 :: real)"
  have hpt: "round64 (td - e) = Finite pt"
    unfolding td_def e_def pt_def
    by (rule round64_eval [where e = "- 2" and n = 5404319552844594]) (simp_all add: round64_arith)
  define pp where "pp = (2702159776422297 / 2 ^ 53 :: real)"
  have hpp: "round64 (pt / d) = Finite pp"
    unfolding pt_def d_def pp_def
    by (rule round64_eval [where e = "- 2" and n = 5404319552844594]) (simp_all add: round64_arith)
  define k15 where "k15 = (5404319552844595 / 2 ^ 55 :: real)"
  define k35 where "k35 = (3152519739159347 / 2 ^ 53 :: real)"
  have l15: "round64 0.15 = Finite k15"
    unfolding k15_def by (rule round64_0_15)
  have l35: "round64 0.35 = Finite k35"
    unfolding k35_def by (rule round64_0_35)
  have c: "e \<le> td" "td < s" "d \<noteq> 0" "\<not> pp < k15" "pp < k35"
    unfolding e_def td_def s_def d_def pp_def k15_def k35_def by simp_all
  have "generateECGPoint [\<lparr>phase = ''QRS'', entry = 0.5, duration = 1\<rparr>] 0.7999999999999999 = 1.8 * sin ((pp - 0.15) / 0.2 * pi)"
    by (simp only: generateECGPoint.simps PhaseInterval.select_convs lt le ld l15 l35)
      (simp add: num_ge_def hs hpt hpp c Let_def)
  then show ?thesis
    unfolding pp_def .
qed

lemma dbl_0_7999999999999999: "dbl 0.7999999999999999 = 7205759403792793 / 2 ^ 53"
proof -
  have "round64 0.7999999999999999 = Finite (7205759403792793 / 2 ^ 53)"
    by (rule round64_eval [where e = "- 1" and n = 7205759403792793]) (simp_all add: round64_arith)
  then show ?thesis
    by (simp only: dbl_def real_of.simps)
qed

lemma dbl_0_7: "dbl 0.7 = 3152519739159347 / 2 ^ 52"
proof -
  have "round64 0.7 = Finite (3152519739159347 / 2 ^ 52)"
    by (rule round64_eval [where e = "- 1" and n = 6305039478318694]) (simp_all add: round64_arith)
  then show ?thesis
    by (simp only: dbl_def real_of.simps)
qed


lemma dbl_0_1: "dbl 0.1 = 3602879701896397 / 2 ^ 55"
  by (simp only: dbl_def round64_0_1 real_of.simps)

text \<open>
  Claim C10, as stated, has the span of an interval in exact arithmetic, from entry to
  entry + duration. For an interval labelled "T" entering at 0.1 with duration 0.7,
  followed by a QRS interval entering at 0.5 with duration 1, and the time
  0.7999999999999999, the first interval holds the time in exact arithmetic, on the
  literals and on the doubles they denote, and its label is none of "QRS", "PQ" and
  "ST"; the value is not 0, since the rounded sum 0.1 + 0.7 is the time itself and the
  generator goes on to the QRS interval.
\<close>

theorem generateECGPoint_exact_span_counterexample:
  "exact_in_span 0.7999999999999999 \<lparr>phase = ''T'', entry = 0.1, duration = 0.7\<rparr>
   \<and> exact_in_span (dbl 0.7999999999999999)
        \<lparr>phase = ''T'', entry = dbl 0.1, duration = dbl 0.7\<rparr>
   \<and> find (exact_in_span 0.7999999999999999)
        [\<lparr>phase = ''T'', entry = 0.1, duration = 0.7\<rparr>,
         \<lparr>phase = ''QRS'', entry = 0.5, duration = 1\<rparr>]
       = Some \<lparr>phase = ''T'', entry = 0.1, duration = 0.7\<rparr>
   \<and> 0 < generateECGPoint
        [\<lparr>phase = ''T'', entry = 0.1, duration = 0.7\<rparr>,
         \<lparr>phase = ''QRS'', entry = 0.5, duration = 1\<rparr>] 0.7999999999999999"
proof -
  have a: "exact_in_span 0.7999999999999999 \<lparr>phase = ''T'', entry = 0.1, duration = 0.7\<rparr>"
    by (simp add: exact_in_span_def)
  have b: "exact_in_span (dbl 0.7999999999999999)
      \<lparr>phase = ''T'', entry = dbl 0.1, duration = dbl 0.7\<rparr>"
    by (simp only: exact_in_span_def PhaseInterval.select_convs dbl_0_7999999999999999 dbl_0_1
        dbl_0_7) simp
  from a have c: "find (exact_in_span 0.7999999999999999)
      [\<lparr>phase = ''T'', entry = 0.1, duration = 0.7\<rparr>,
       \<lparr>phase = ''QRS'', entry = 0.5, duration = 1\<rparr>]
      = Some \<lparr>phase = ''T'', entry = 0.1, duration = 0.7\<rparr>"
    by (simp only: find.simps if_True)
  have "generateECGPoint
      [\<lparr>phase = ''T'', entry = 0.1, duration = 0.7\<rparr>,
       \<lparr>phase = ''QRS'', entry = 0.5, duration = 1\<rparr>] 0.7999999999999999
      = generateECGPoint [\<lparr>phase = ''QRS'', entry = 0.5, duration = 1\<rparr>] 0.7999999999999999"
    using span_T_edge span_QRS_edge
    by (simp only: generateECGPoint_Cons [of _ "[_]"] if_False if_True)
  also have "\<dots> = 1.8 * sin ((2702159776422297 / 2 ^ 53 - 0.15) / 0.2 * pi)"
    by (rule spike_QRS_edge)
  also have "\<dots> > 0"
  proof -
    have "0 < sin ((2702159776422297 / 2 ^ 53 - 0.15) / 0.2 * pi)"
      by (rule sin_pos_between) simp_all
    then show ?thesis by simp
  qed
  finally have d: "0 < generateECGPoint
      [\<lparr>phase = ''T'', entry = 0.1, duration = 0.7\<rparr>,
       \<lparr>phase = ''QRS'', entry = 0.5, duration = 1\<rparr>] 0.7999999999999999" .
  show ?thesis
    by (intro conjI a b c d)
qed

text \<open>
  Claim C10, amended: the span of an interval is the one the code tests, from the entry
  to the sum of entry and duration rounded to a double. In the interval-walking
  generator, the value at a time that no interval holds in its span is exactly 0, and so
  is the value at a time whose first holding interval, in list order, has a label that
  is none of "QRS", "PQ" and "ST". The first holding interval alone determines the
  value: it is the value the generator gives on that interval taken by itself.
\<close>

theorem generateECGPoint_baseline:
  "((\<forall>interval \<in> set intervals. \<not> in_span t interval) \<longrightarrow> generateECGPoint intervals t = 0)
   \<and> (\<forall>interval. find (in_span t) intervals = Some interval
          \<and> phase interval \<notin> {''QRS'', ''PQ'', ''ST''}
        \<longrightarrow> generateECGPoint intervals t = 0)
   \<and> generateECGPoint intervals t =
       (case find (in_span t) intervals of
          None \<Rightarrow> 0
        | Some interval \<Rightarrow> generateECGPoint [interval] t)"
proof (intro conjI allI impI)
  assume "\<forall>interval \<in> set intervals. \<not> in_span t interval"
  then have "find (in_span t) intervals = None"
    by (simp add: find_None_iff)
  then show "generateECGPoint intervals t = 0"
    by (simp only: generateECGPoint_find [of intervals] option.case)
next
  fix interval
  assume a: "find (in_span t) intervals = Some interval
    \<and> phase interval \<notin> {''QRS'', ''PQ'', ''ST''}"
  then have f: "find (in_span t) intervals = Some interval" ..
  from a have "phase interval \<notin> {''QRS'', ''PQ'', ''ST''}" ..
  then have "generateECGPoint [interval] t = 0"
    by (rule generateECGPoint_other_label)
  then show "generateECGPoint intervals t = 0"
    by (simp only: generateECGPoint_find [of intervals] f option.case)
next
  show "generateECGPoint intervals t =
      (case find (in_span t) intervals of
         None \<Rightarrow> 0
       | Some interval \<Rightarrow> generateECGPoint [interval] t)"
    by (rule generateECGPoint_find)
qed

theorem generateECGPoint_baseline_witness:
  "generateECGPoint
     [\<lparr>phase = ''PQ'', entry = 0, duration = 0.1\<rparr>,
      \<lparr>phase = ''T'', entry = 0.1, duration = 0.5\<rparr>,
      \<lparr>phase = ''QRS'', entry = 0.3, duration = 0.1\<rparr>] 1 = 0
   \<and> find (in_span 0.35)
       [\<lparr>phase = ''PQ'', entry = 0, duration = 0.1\<rparr>,
        \<lparr>phase = ''T'', entry = 0.1, duration = 0.5\<rparr>,
        \<lparr>phase = ''QRS'', entry = 0.3, duration = 0.1\<rparr>]
       = Some \<lparr>phase = ''T'', entry = 0.1, duration = 0.5\<rparr>
   \<and> generateECGPoint
       [\<lparr>phase = ''PQ'', entry = 0, duration = 0.1\<rparr>,
        \<lparr>phase = ''T'', entry = 0.1, duration = 0.5\<rparr>,
        \<lparr>phase = ''QRS'', entry = 0.3, duration = 0.1\<rparr>] 0.35 = 0
   \<and> find (in_span 0.7999999999999999)
       [\<lparr>phase = ''T'', entry = 0.1, duration = 0.7\<rparr>,
        \<lparr>phase = ''QRS'', entry = 0.5, duration = 1\<rparr>]
       = Some \<lparr>phase = ''QRS'', entry = 0.5, duration = 1\<rparr>
   \<and> generateECGPoint
       [\<lparr>phase = ''T'', entry = 0.1, duration = 0.7\<rparr>,
        \<lparr>phase = ''QRS'', entry = 0.5, duration = 1\<rparr>] 0.7999999999999999
       = generateECGPoint [\<lparr>phase = ''QRS'', entry = 0.5, duration = 1\<rparr>] 0.7999999999999999"
proof -
  let ?ivs = "[\<lparr>phase = ''PQ'', entry = 0, duration = 0.1\<rparr>,
               \<lparr>phase = ''T'', entry = 0.1, duration = 0.5\<rparr>,
               \<lparr>phase = ''QRS'', entry = 0.3, duration = 0.1\<rparr>]"
  let ?jvs = "[\<lparr>phase = ''T'', entry = 0.1, duration = 0.7\<rparr>,
               \<lparr>phase = ''QRS'', entry = 0.5, duration = 1\<rparr>]"
  have out: "\<forall>interval \<in> set ?ivs. \<not> in_span 1 interval"
    using span_PQ_late span_T_late span_QRS_late by (simp only: list.set ball_simps) blast
  have first: "find (in_span 0.35) ?ivs = Some \<lparr>phase = ''T'', entry = 0.1, duration = 0.5\<rparr>"
    using span_PQ_mid span_T_mid by (simp only: find.simps if_False if_True)
  have label: "phase \<lparr>phase = ''T'', entry = 0.1, duration = 0.5\<rparr> \<notin> {''QRS'', ''PQ'', ''ST''}"
    by simp
  have edge: "find (in_span 0.7999999999999999) ?jvs
      = Some \<lparr>phase = ''QRS'', entry = 0.5, duration = 1\<rparr>"
    using span_T_edge span_QRS_edge by (simp only: find.simps if_False if_True)
  from generateECGPoint_baseline [of ?ivs 1] out
  have a: "generateECGPoint ?ivs 1 = 0" by blast
  from generateECGPoint_baseline [of ?ivs "0.35"] first label
  have b: "generateECGPoint ?ivs 0.35 = 0" by blast
  from generateECGPoint_baseline [of ?jvs "0.7999999999999999"]
  have "generateECGPoint ?jvs 0.7999999999999999 =
      (case find (in_span 0.7999999999999999) ?jvs of
         None \<Rightarrow> 0
       | Some interval \<Rightarrow> generateECGPoint [interval] 0.7999999999999999)"
    by blast
  then have c: "generateECGPoint ?jvs 0.7999999999999999
      = generateECGPoint [\<lparr>phase = ''QRS'', entry = 0.5, duration = 1\<rparr>] 0.7999999999999999"
    by (simp only: edge option.case)
  show ?thesis
    by (intro conjI a first b edge c)
qed

section \<open>Properties of the loader\<close>

lemma loadEcgData_catch:
  "loadEcgData_try fetched random = Inl e \<Longrightarrow>
   loadEcgData fetched random =
     Inr \<lparr>setRealBPM_calls = [72],
          returned = generateRealisticECG 1000 SAMPLING_RATE (Some 72) random\<rparr>"
  by (simp add: loadEcgData_def)

text \<open>The ways the \<^verbatim>\<open>try\<close> block fails, read off the input.\<close>

lemma loadEcgData_try_fails:
  "(\<exists>e. loadEcgData_try fetched random = Inl e) \<longleftrightarrow>
     fetched = FetchRejected
     \<or> (\<exists>body. fetched = Response False body)
     \<or> fetched = Response True None
     \<or> (\<exists>v. fetched = Response True (Some v) \<and> (\<forall>elements. v \<noteq> JArr elements))
     \<or> (\<exists>elements e. fetched = Response True (Some (JArr elements))
           \<and> calculateStableBPM elements = Inl e)"
  by (auto simp: loadEcgData_try_def split: fetch_result.splits option.splits jsval.splits
      sum.splits)

text \<open>
  Claim C6. Whenever fetching (the request is rejected or the response is not ok),
  parsing (the body is not JSON), validating (the body is not an array) or the BPM
  estimation fails, \<^verbatim>\<open>loadEcgData\<close> does not fail: it reports the fallback rate 72
  through \<^verbatim>\<open>setRealBPM\<close>, and nothing else, and returns the sequence generated at that
  rate, which has 1000 elements and so is not empty.
\<close>

theorem loadEcgData_fallback:
  assumes "fetched = FetchRejected
     \<or> (\<exists>body. fetched = Response False body)
     \<or> fetched = Response True None
     \<or> (\<exists>v. fetched = Response True (Some v) \<and> (\<forall>elements. v \<noteq> JArr elements))
     \<or> (\<exists>elements e. fetched = Response True (Some (JArr elements))
           \<and> calculateStableBPM elements = Inl e)"
  shows "loadEcgData fetched random =
           Inr \<lparr>setRealBPM_calls = [72],
                returned = generateRealisticECG 1000 SAMPLING_RATE (Some 72) random\<rparr>
       \<and> length (generateRealisticECG 1000 SAMPLING_RATE (Some 72) random) = 1000
       \<and> generateRealisticECG 1000 SAMPLING_RATE (Some 72) random \<noteq> []"
proof -
  from assms have "\<exists>e. loadEcgData_try fetched random = Inl e"
    by (simp only: loadEcgData_try_fails)
  then obtain e where "loadEcgData_try fetched random = Inl e" ..
  then have "loadEcgData fetched random =
      Inr \<lparr>setRealBPM_calls = [72],
           returned = generateRealisticECG 1000 SAMPLING_RATE (Some 72) random\<rparr>"
    by (rule loadEcgData_catch)
  moreover have l: "length (generateRealisticECG 1000 SAMPLING_RATE (Some 72) random) = 1000"
    by (rule generateRealisticECG_length)
  moreover from l have "generateRealisticECG 1000 SAMPLING_RATE (Some 72) random \<noteq> []"
    by auto
  ultimately show ?thesis by simp
qed

theorem loadEcgData_fallback_witness:
  "loadEcgData (Response True (Some (JObj []))) mid_random =
     Inr \<lparr>setRealBPM_calls = [72],
          returned = generateRealisticECG 1000 SAMPLING_RATE (Some 72) mid_random\<rparr>
   \<and> calculateStableBPM [JNull, qrs_event 0 0.1, qrs_event 0.8 0.1] = Inl TypeError
   \<and> loadEcgData (Response True (Some (JArr [JNull, qrs_event 0 0.1, qrs_event 0.8 0.1])))
       mid_random =
     Inr \<lparr>setRealBPM_calls = [72],
          returned = generateRealisticECG 1000 SAMPLING_RATE (Some 72) mid_random\<rparr>
   \<and> length (generateRealisticECG 1000 SAMPLING_RATE (Some 72) mid_random) = 1000"
proof -
  have t: "calculateStableBPM [JNull, qrs_event 0 0.1, qrs_event 0.8 0.1] = Inl TypeError"
    by (simp add: calculateStableBPM_def is_qrs_event_def)
  have a: "Response True (Some (JObj [])) = FetchRejected
     \<or> (\<exists>body. Response True (Some (JObj [])) = Response False body)
     \<or> Response True (Some (JObj [])) = Response True None
     \<or> (\<exists>v. Response True (Some (JObj [])) = Response True (Some v)
           \<and> (\<forall>elements. v \<noteq> JArr elements))
     \<or> (\<exists>elements e. Response True (Some (JObj [])) = Response True (Some (JArr elements))
           \<and> calculateStableBPM elements = Inl e)"
    by simp
  have b: "Response True (Some (JArr [JNull, qrs_event 0 0.1, qrs_event 0.8 0.1])) = FetchRejected
     \<or> (\<exists>body. Response True (Some (JArr [JNull, qrs_event 0 0.1, qrs_event 0.8 0.1]))
           = Response False body)
     \<or> Response True (Some (JArr [JNull, qrs_event 0 0.1, qrs_event 0.8 0.1])) = Response True None
     \<or> (\<exists>v. Response True (Some (JArr [JNull, qrs_event 0 0.1, qrs_event 0.8 0.1]))
             = Response True (Some v)
           \<and> (\<forall>elements. v \<noteq> JArr elements))
     \<or> (\<exists>elements e. Response True (Some (JArr [JNull, qrs_event 0 0.1, qrs_event 0.8 0.1]))
             = Response True (Some (JArr elements))
           \<and> calculateStableBPM elements = Inl e)"
    using t by simp
  from loadEcgData_fallback [OF a, of mid_random] loadEcgData_fallback [OF b, of mid_random] t
  show ?thesis by simp
qed


end
